theory Spec2Isabelle
  imports Complex_Main "HOL-Library.Sublist"
begin

section \<open>Data model (src/types/Scraper.types.ts)\<close>

text \<open>
  A JavaScript \<open>number\<close> is a double. A finite double is modelled by its value, a
  rational; the two zeros are one value, and \<open>NaN\<close> and the infinities, which no
  arithmetic of the scraper produces from finite numbers, have no value here. The finite
  doubles are the multiples \<open>m * 2^-1074\<close> of the smallest positive double whose integer
  \<open>m\<close> has at most 53 significant bits.
\<close>

type_synonym number = rat

text \<open>
  The only arithmetic the scraper does on a number is \<open>this.timeout / 2\<close>, a division
  of doubles, rounded to the nearest double with ties to the even significand. For an even
  \<open>m\<close> the half \<open>(m div 2) * 2^-1074\<close> is a double. An odd \<open>m\<close> has at most 53
  bits, so the number is below \<open>2^-1021\<close>, where neighbouring doubles are \<open>2^-1074\<close>
  apart; its half lies midway between two of them and is rounded to the one whose
  multiple is even.
\<close>

definition divide_by_2 :: "number \<Rightarrow> number" where
  "divide_by_2 q =
     (let m = \<lfloor>q * 2 ^ 1074\<rfloor>
      in if even m then q / 2
         else (let k = (m - 1) div 2
               in of_int (if even k then k else k + 1) / 2 ^ 1074))"

text \<open>
  \<open>StringBoolean\<close> is a union of string literals and the two boolean literals. At run time
  the value is any string or a boolean, so both alternatives are kept apart.
\<close>

datatype StringBoolean = Str string | Bool bool

datatype PlaywrightLoadEvents = load | domcontentloaded | networkidle | commit

datatype ProxyType = ProxyNone | IPv6 | Mobile | Residential | Datacenter | Custom

text \<open>The string value of each member of the enum \<open>ProxyType\<close>.\<close>

fun ProxyType_value :: "ProxyType \<Rightarrow> string" where
  "ProxyType_value ProxyNone = ''none''"
| "ProxyType_value IPv6 = ''ipv6''"
| "ProxyType_value Mobile = ''mobile''"
| "ProxyType_value Residential = ''residential''"
| "ProxyType_value Datacenter = ''datacenter''"
| "ProxyType_value Custom = ''custom''"

text \<open>
  \<open>browser_type\<close> is declared as one of three string literals or absent; the switch
  statements that read it have a default branch, so it is kept as an optional string.
\<close>

record IScraperConfig =
  url :: string
  proxy_type :: ProxyType
  eval_js :: "string option"
  browser_type :: "string option"
  headless :: "StringBoolean option"
  block_ads :: "StringBoolean option"
  stealth :: "StringBoolean option"
  timeout :: "number option"
  block_resources :: "string option"
  wait_until :: "PlaywrightLoadEvents option"
  view_source :: "StringBoolean option"
  screenshot :: "StringBoolean option"
  wait_for_css :: "string option"
  wait_for :: "number option"

record IProxyConfig =
  server :: string
  bypass :: string
  username :: string
  password :: string

text \<open>
  Playwright's \<open>LaunchOptions\<close>, with the two properties the scraper adds to it. A field
  that is \<open>None\<close> is a property that is absent or \<open>undefined\<close>.
\<close>

record LaunchOptions =
  headless :: bool
  ignoreDefaultArgs :: "string list"
  proxy :: "IProxyConfig option"
  stealth :: "bool option"
  blockAds :: "bool option"

text \<open>The three engines of Playwright, as \<open>getBrowser\<close> returns them.\<close>

datatype BrowserType = chromium | firefox | webkit

section \<open>Utilities\<close>

text \<open>src/utils/constants/browser.defaults.ts\<close>

definition launchOptions_defaults :: LaunchOptions where
  "launchOptions_defaults =
     \<lparr>headless = True, ignoreDefaultArgs = [''--headless''], proxy = None,
      stealth = None, blockAds = None\<rparr>"

text \<open>src/utils/getBrowser.ts\<close>

definition getBrowser :: "string option \<Rightarrow> BrowserType" where
  "getBrowser browser =
     (if browser = Some ''webkit'' then webkit
      else if browser = Some ''firefox'' then firefox
      else chromium)"

text \<open>
  src/utils/parseBool.ts. The comparisons are strict equalities with string literals, so
  a boolean never equals one of them.
\<close>

fun parseBool :: "StringBoolean option \<Rightarrow> bool" where
  "parseBool None = True"
| "parseBool (Some (Str v)) =
     (if v = ''true'' \<or> v = ''1'' \<or> v = ''yes'' \<or> v = ''on'' \<or> v = ''enabled''
      then True else False)"
| "parseBool (Some (Bool b)) = False"

text \<open>
  \<open>String.prototype.toUpperCase\<close> on ASCII letters, which is all the values of
  \<open>ProxyType\<close> contain; every other character is left as it is.
\<close>

definition toUpperCase_char :: "char \<Rightarrow> char" where
  "toUpperCase_char c =
     (case map_of (zip ''abcdefghijklmnopqrstuvwxyz'' ''ABCDEFGHIJKLMNOPQRSTUVWXYZ'') c of
        None \<Rightarrow> c
      | Some u \<Rightarrow> u)"

definition toUpperCase :: "string \<Rightarrow> string" where
  "toUpperCase s = map toUpperCase_char s"

text \<open>\<open>process.env[key] ?? ""\<close>, the environment being a map from names to strings.\<close>

definition env_or_empty :: "(string \<rightharpoonup> string) \<Rightarrow> string \<Rightarrow> string" where
  "env_or_empty env k = (case env k of None \<Rightarrow> [] | Some v \<Rightarrow> v)"

section \<open>Launch parameter builder (Scraper.setupLaunchOptions)\<close>

text \<open>The immediately invoked function that resolves the proxy, lines 48 to 60.\<close>

definition resolve_proxy :: "(string \<rightharpoonup> string) \<Rightarrow> IScraperConfig \<Rightarrow> IProxyConfig option" where
  "resolve_proxy env cfg =
     (case proxy_type cfg of
        ProxyNone \<Rightarrow> None
      | _ \<Rightarrow>
          Some \<lparr>server = env_or_empty env (''PROXY_'' @ toUpperCase (ProxyType_value (proxy_type cfg)) @ ''_SERVER''),
                bypass = env_or_empty env (''PROXY_'' @ toUpperCase (ProxyType_value (proxy_type cfg)) @ ''_BYPASS''),
                username = env_or_empty env (''PROXY_'' @ toUpperCase (ProxyType_value (proxy_type cfg)) @ ''_USERNAME''),
                password = env_or_empty env (''PROXY_'' @ toUpperCase (ProxyType_value (proxy_type cfg)) @ ''_PASSWORD'')\<rparr>)"

text \<open>
  \<open>setupLaunchOptions\<close> mutates \<open>this.launchOptions\<close>; the model takes the options
  and returns them updated, one assignment after the other.
\<close>

definition setupLaunchOptions ::
  "(string \<rightharpoonup> string) \<Rightarrow> IScraperConfig \<Rightarrow> LaunchOptions \<Rightarrow> LaunchOptions" where
  "setupLaunchOptions env cfg lo0 =
     (let lo1 = lo0\<lparr>proxy := resolve_proxy env cfg\<rparr>;
          lo2 = lo1\<lparr>headless := parseBool (IScraperConfig.headless cfg)\<rparr>
      in if browser_type cfg = Some ''webkit'' then lo2\<lparr>proxy := None\<rparr>
         else if browser_type cfg = Some ''firefox'' then lo2
         else if browser_type cfg = Some ''chromium'' then
           lo2\<lparr>stealth := Some (parseBool (IScraperConfig.stealth cfg)),
                blockAds := Some (parseBool (block_ads cfg))\<rparr>
         else lo2)"

section \<open>The automation service as seen by one session\<close>

text \<open>
  Everything that is thrown in a session is an \<open>Error\<close> object of the runtime or of
  Playwright; the scraper reads nothing but its message. An awaited promise either rejects
  with an error (\<open>Inl\<close>) or resolves to a value (\<open>Inr\<close>).
\<close>

datatype js_error = Error (message: string)

type_synonym 'a outcome = "js_error + 'a"

text \<open>A value returned by a script evaluated in the page, of type \<open>unknown\<close>.\<close>

datatype unknown =
    JSUndefined | JSNull | JSBoolean bool | JSNumber number | JSString string
  | JSArray "unknown list" | JSObject "(string \<times> unknown) list"

datatype Cookie = Cookie string string

record Response =
  headers :: "(string \<times> string) list"
  status :: number

datatype Browser = Browser
datatype BrowserContext = BrowserContext
datatype Page = Page

text \<open>The three events of a page that \<open>scrape\<close> subscribes to.\<close>

datatype page_event = crash_event | close_event | dialog_event

text \<open>
  The operations of a session that are awaited while the listeners are subscribed, and
  \<open>UrlCapture\<close>, the moment at which line 209 reads the address of the page.
\<close>

datatype stage =
    Navigating | FixedWait | SelectorWait | ScriptEval | ImageCapture
  | UrlCapture | ContentCapture | CookieCapture

text \<open>
  One session talks to one remote service. A \<open>world\<close> fixes what the service and the
  runtime answer in that session: the environment variables, the result of each remote
  operation, the address the page reports, whether the connection is still open at
  teardown, the events the page emits during each awaited operation, and the result of
  dismissing a dialog.
  \<open>screenshot_result\<close> is the captured image in its base64 rendering.
\<close>

record world =
  env :: "string \<rightharpoonup> string"
  decodeURIComponent :: "string \<Rightarrow> string outcome"
  connect_result :: "Browser outcome"
  newContext_result :: "BrowserContext outcome"
  newPage_result :: "Page outcome"
  route_result :: "unit outcome"
  goto_result :: "Response option outcome"
  waitForTimeout_result :: "unit outcome"
  waitForSelector_result :: "unit outcome"
  evaluate_result :: "unknown outcome"
  screenshot_result :: "string outcome"
  page_url :: "stage \<Rightarrow> string"
  content_result :: "string outcome"
  cookies_result :: "Cookie list outcome"
  unroute_result :: "unit outcome"
  page_close_result :: "unit outcome"
  context_close_result :: "unit outcome"
  isConnected_result :: bool
  browser_close_result :: "unit outcome"
  events :: "stage \<Rightarrow> page_event list"
  dismiss_result :: "unit outcome"

text \<open>
  What a session does to the outside: the calls it makes on the service, with their
  arguments, and the lines it writes to the console. \<open>Connect\<close> carries the three parts
  of the connection descriptor (endpoint, engine name, launch options) before they are
  formatted into one string. \<open>Uncaught\<close> is an error thrown by a listener: the
  listener is called by the event emitter, so the error surfaces there and not in the
  \<open>try\<close> block of \<open>scrape\<close>. \<open>UnhandledRejection\<close> is the rejection of the
  promise of an asynchronous listener, which nothing awaits.
\<close>

datatype action =
    Connect string BrowserType LaunchOptions
  | NewContext LaunchOptions
  | NewPage
  | Route string "string list"
  | SetDefaultTimeout number
  | On page_event
  | Goto string PlaywrightLoadEvents
  | WaitForTimeout number
  | WaitForSelector string
  | Evaluate string
  | Screenshot bool number
  | Content
  | Cookies
  | Off page_event
  | Unroute string
  | PageClose
  | ContextClose
  | RemoveAllListeners
  | BrowserClose
  | DialogDismiss
  | ConsoleError string
  | ConsoleWarn string
  | Uncaught js_error
  | UnhandledRejection js_error

record IScraperResult =
  url :: "string option"
  status_code :: "number option"
  body :: "string option"
  error :: "string option"
  cookies :: "Cookie list option"
  headers :: "(string \<times> string) list option"
  screenshot :: "string option"
  eval_result :: "unknown option"

text \<open>The object \<open>{} as IScraperResult\<close>: no property is set.\<close>

definition empty_result :: IScraperResult where
  "empty_result =
     \<lparr>url = None, status_code = None, body = None, error = None, cookies = None,
      headers = None, screenshot = None, eval_result = None\<rparr>"

section \<open>The class Scraper\<close>

record Scraper =
  CONFIG :: IScraperConfig
  launchOptions :: LaunchOptions
  default_timeout :: number
  browserContext :: "BrowserContext option"
  browser :: "Browser option"
  page :: "Page option"

text \<open>
  A method of the class takes the instance and returns how it completed, the instance as
  it left it, and the actions it performed, in order.
\<close>

type_synonym 'a step = "'a outcome \<times> Scraper \<times> action list"

fun outcome_of :: "'a step \<Rightarrow> 'a outcome" where
  "outcome_of (r, s, xs) = r"

fun state_of :: "'a step \<Rightarrow> Scraper" where
  "state_of (r, s, xs) = s"

fun trace_of :: "'a step \<Rightarrow> action list" where
  "trace_of (r, s, xs) = xs"

text \<open>Sequencing inside a block: a throw skips the statements that follow.\<close>

definition andThen :: "'a step \<Rightarrow> ('a \<Rightarrow> Scraper \<Rightarrow> 'b step) \<Rightarrow> 'b step" where
  "andThen m f =
     (case m of
        (Inl e, s, xs) \<Rightarrow> (Inl e, s, xs)
      | (Inr a, s, xs) \<Rightarrow> (case f a s of (r, s', ys) \<Rightarrow> (r, s', xs @ ys)))"

text \<open>The getter \<open>timeout\<close>: \<open>this._CONFIG.timeout ?? this._timeout\<close>.\<close>

definition Scraper_timeout :: "Scraper \<Rightarrow> number" where
  "Scraper_timeout s = (case timeout (CONFIG s) of None \<Rightarrow> default_timeout s | Some t \<Rightarrow> t)"

text \<open>The constructor, with the field initialisers of the class.\<close>

definition new_Scraper :: "world \<Rightarrow> IScraperConfig \<Rightarrow> Scraper" where
  "new_Scraper w config =
     \<lparr>CONFIG = config,
      launchOptions = setupLaunchOptions (env w) config launchOptions_defaults,
      default_timeout = 60000,
      browserContext = None, browser = None, page = None\<rparr>"

text \<open>Truthiness of the optional fields that are tested with a plain \<open>if\<close>.\<close>

fun truthy_string :: "string option \<Rightarrow> bool" where
  "truthy_string None = False"
| "truthy_string (Some v) = (v \<noteq> [])"

fun truthy_number :: "number option \<Rightarrow> bool" where
  "truthy_number None = False"
| "truthy_number (Some n) = (n \<noteq> 0)"

fun truthy_StringBoolean :: "StringBoolean option \<Rightarrow> bool" where
  "truthy_StringBoolean None = False"
| "truthy_StringBoolean (Some (Str v)) = (v \<noteq> [])"
| "truthy_StringBoolean (Some (Bool b)) = b"

text \<open>\<open>String.prototype.split\<close> with a separator of one character.\<close>

fun split_on :: "char \<Rightarrow> string \<Rightarrow> string list" where
  "split_on c [] = [[]]"
| "split_on c (x # xs) =
     (if x = c then [] # split_on c xs
      else (case split_on c xs of [] \<Rightarrow> [[x]] | p # ps \<Rightarrow> (x # p) # ps))"

subsection \<open>Listeners\<close>

text \<open>The three closures of \<open>scrape\<close>, lines 172 to 181.\<close>

definition crash :: "world \<Rightarrow> stage \<Rightarrow> Scraper \<Rightarrow> unit step" where
  "crash w st s =
     (Inl (Error ''Page crashed''), s,
      [ConsoleError (''Page crashed on '' @ (case page s of None \<Rightarrow> ''unknown'' | Some p \<Rightarrow> page_url w st))])"

definition close :: "world \<Rightarrow> stage \<Rightarrow> Scraper \<Rightarrow> unit step" where
  "close w st s =
     (Inr (), s,
      [ConsoleWarn (''Page closed on '' @ (case page s of None \<Rightarrow> ''unknown'' | Some p \<Rightarrow> page_url w st))])"

definition dialog :: "world \<Rightarrow> stage \<Rightarrow> Scraper \<Rightarrow> unit step" where
  "dialog w st s = (dismiss_result w, s, [DialogDismiss])"

fun listener :: "page_event \<Rightarrow> world \<Rightarrow> stage \<Rightarrow> Scraper \<Rightarrow> unit step" where
  "listener crash_event = crash"
| "listener close_event = close"
| "listener dialog_event = dialog"

text \<open>
  The page emits an event: the subscribed listener runs in the emitter. The crash and the
  close listener are synchronous, the dialog listener is \<open>async\<close>.
\<close>

definition dispatch :: "world \<Rightarrow> stage \<Rightarrow> Scraper \<Rightarrow> page_event \<Rightarrow> action list" where
  "dispatch w st s ev =
     (case listener ev w st s of
        (Inl e, s', xs) \<Rightarrow>
          xs @ [if ev = dialog_event then UnhandledRejection e else Uncaught e]
      | (Inr u, s', xs) \<Rightarrow> xs)"

text \<open>
  An operation on the service that is not observed by the listeners, and one that is
  awaited while they are subscribed: the call is made, the events of the page that arrive
  in the meantime are dispatched, then the promise settles.
\<close>

definition perform :: "action \<Rightarrow> 'a outcome \<Rightarrow> Scraper \<Rightarrow> 'a step" where
  "perform a r s = (r, s, [a])"

definition await_page :: "world \<Rightarrow> stage \<Rightarrow> action \<Rightarrow> 'a outcome \<Rightarrow> Scraper \<Rightarrow> 'a step" where
  "await_page w st a r s = (r, s, a # concat (map (dispatch w st s) (events w st)))"

definition return :: "'a \<Rightarrow> Scraper \<Rightarrow> 'a step" where
  "return x s = (Inr x, s, [])"

definition throw :: "js_error \<Rightarrow> Scraper \<Rightarrow> 'a step" where
  "throw e s = (Inl e, s, [])"

subsection \<open>Acquiring the connection, the context and the page\<close>

definition setupBrowser :: "world \<Rightarrow> Scraper \<Rightarrow> Browser step" where
  "setupBrowser w s =
     perform
       (Connect (case env w ''BROWSER_WS_ENDPOINT'' of None \<Rightarrow> ''ws://127.0.0.1'' | Some v \<Rightarrow> v)
          (getBrowser (browser_type (CONFIG s))) (launchOptions s))
       (connect_result w) s"

definition setupContext :: "world \<Rightarrow> Scraper \<Rightarrow> BrowserContext step" where
  "setupContext w s =
     (case browser s of
        None \<Rightarrow> throw (Error ''Browser is not initialized'') s
      | Some b \<Rightarrow> perform (NewContext (launchOptions s)) (newContext_result w) s)"

definition setupPage :: "world \<Rightarrow> Scraper \<Rightarrow> Page step" where
  "setupPage w s =
     (case browserContext s of
        None \<Rightarrow> throw (Error ''Context is not initialized'') s
      | Some c \<Rightarrow>
          andThen (perform NewPage (newPage_result w) s) (\<lambda>p s.
          andThen
            (if truthy_string (block_resources (CONFIG s))
             then perform
                    (Route ''**/*''
                       (case block_resources (CONFIG s) of None \<Rightarrow> [] | Some r \<Rightarrow> split_on CHR '','' r))
                    (route_result w) s
             else return () s) (\<lambda>u s.
          andThen (perform (SetDefaultTimeout (Scraper_timeout s)) (Inr ()) s) (\<lambda>u s.
          return p s))))"

subsection \<open>Teardown (Scraper.cleanup)\<close>

text \<open>\<open>await op.catch((e) => { console.error(e) })\<close>: the rejection is logged, not thrown.\<close>

definition caught :: "action \<Rightarrow> unit outcome \<Rightarrow> Scraper \<Rightarrow> unit step" where
  "caught a r s =
     (Inr (), s, a # (case r of Inl e \<Rightarrow> [ConsoleError (message e)] | Inr u \<Rightarrow> []))"

definition cleanup :: "world \<Rightarrow> Scraper \<Rightarrow> unit step" where
  "cleanup w s =
     andThen
       (case page s of
          None \<Rightarrow> return () s
        | Some p \<Rightarrow>
            andThen (caught (Unroute ''**/*'') (unroute_result w) s) (\<lambda>u s.
            caught PageClose (page_close_result w) s)) (\<lambda>u s.
     andThen
       (case browserContext s of
          None \<Rightarrow> return () s
        | Some c \<Rightarrow> caught ContextClose (context_close_result w) s) (\<lambda>u s.
     (case browser s of
        None \<Rightarrow> return () s
      | Some b \<Rightarrow>
          if isConnected_result w
          then andThen (perform RemoveAllListeners (Inr ()) s) (\<lambda>u s.
               caught BrowserClose (browser_close_result w) s)
          else return () s)))"

subsection \<open>The session (Scraper.scrape)\<close>

text \<open>Lines 184 to 189: the three handles are acquired in order, then the listeners subscribed.\<close>

definition open_session :: "world \<Rightarrow> Scraper \<Rightarrow> unit step" where
  "open_session w s =
     andThen (setupBrowser w s) (\<lambda>b s.
     andThen (setupContext w (s\<lparr>browser := Some b\<rparr>)) (\<lambda>c s.
     andThen (setupPage w (s\<lparr>browserContext := Some c\<rparr>)) (\<lambda>p s.
     andThen (perform (On crash_event) (Inr ()) (s\<lparr>page := Some p\<rparr>)) (\<lambda>u s.
     andThen (perform (On close_event) (Inr ()) s) (\<lambda>u s.
     perform (On dialog_event) (Inr ()) s)))))"

text \<open>Lines 191 to 194: navigation; the headers are taken from the response, if there is one.\<close>

definition navigate ::
  "world \<Rightarrow> string \<Rightarrow> IScraperResult \<Rightarrow> Scraper \<Rightarrow> (Response option \<times> IScraperResult) step" where
  "navigate w target result s =
     andThen
       (await_page w Navigating
          (Goto target (case wait_until (CONFIG s) of None \<Rightarrow> domcontentloaded | Some ev \<Rightarrow> ev))
          (goto_result w) s) (\<lambda>res s.
     return
       (res, result\<lparr>headers := Some (case res of None \<Rightarrow> [] | Some r \<Rightarrow> Response.headers r)\<rparr>) s)"

text \<open>Lines 195 to 208, one definition for each \<open>if\<close>.\<close>

definition fixed_wait :: "world \<Rightarrow> Scraper \<Rightarrow> unit step" where
  "fixed_wait w s =
     (if truthy_number (wait_for (CONFIG s))
      then await_page w FixedWait
             (WaitForTimeout (case wait_for (CONFIG s) of None \<Rightarrow> 0 | Some d \<Rightarrow> d))
             (waitForTimeout_result w) s
      else return () s)"

definition selector_wait :: "world \<Rightarrow> Scraper \<Rightarrow> unit step" where
  "selector_wait w s =
     (if truthy_string (wait_for_css (CONFIG s))
      then await_page w SelectorWait
             (WaitForSelector (case wait_for_css (CONFIG s) of None \<Rightarrow> [] | Some c \<Rightarrow> c))
             (waitForSelector_result w) s
      else return () s)"

definition script_eval :: "world \<Rightarrow> IScraperResult \<Rightarrow> Scraper \<Rightarrow> IScraperResult step" where
  "script_eval w result s =
     (case eval_js (CONFIG s) of
        None \<Rightarrow> return result s
      | Some js \<Rightarrow>
          andThen (decodeURIComponent w js, s, []) (\<lambda>script s.
          andThen (await_page w ScriptEval (Evaluate script) (evaluate_result w) s) (\<lambda>evaluate s.
          return (result\<lparr>eval_result := Some evaluate\<rparr>) s)))"

definition image_capture :: "world \<Rightarrow> IScraperResult \<Rightarrow> Scraper \<Rightarrow> IScraperResult step" where
  "image_capture w result s =
     (if truthy_StringBoolean (IScraperConfig.screenshot (CONFIG s))
      then andThen
             (await_page w ImageCapture (Screenshot True (divide_by_2 (Scraper_timeout s)))
                (screenshot_result w) s) (\<lambda>screenshot_buff s.
           return (result\<lparr>screenshot := Some screenshot_buff\<rparr>) s)
      else return result s)"

definition postActions :: "world \<Rightarrow> IScraperResult \<Rightarrow> Scraper \<Rightarrow> IScraperResult step" where
  "postActions w result s =
     andThen (fixed_wait w s) (\<lambda>u s.
     andThen (selector_wait w s) (\<lambda>u s.
     andThen (script_eval w result s) (\<lambda>result s.
     image_capture w result s)))"

text \<open>Lines 209 to 213.\<close>

definition capture ::
  "world \<Rightarrow> Response option \<Rightarrow> IScraperResult \<Rightarrow> Scraper \<Rightarrow> IScraperResult step" where
  "capture w res result s =
     andThen (return (result\<lparr>url := Some (page_url w UrlCapture)\<rparr>) s) (\<lambda>result s.
     andThen (await_page w ContentCapture Content (content_result w) s) (\<lambda>html s.
     andThen
       (return
          (result\<lparr>body := Some html,
                  status_code := Some (case res of None \<Rightarrow> 0 | Some r \<Rightarrow> status r)\<rparr>) s) (\<lambda>result s.
     andThen (await_page w CookieCapture Cookies (cookies_result w) s) (\<lambda>jar s.
     return (result\<lparr>cookies := Some jar\<rparr>) s))))"

text \<open>The \<open>try\<close> block, lines 183 to 213.\<close>

definition URL :: "Scraper \<Rightarrow> string" where
  "URL s =
     (if view_source (CONFIG s) \<noteq> None \<and> parseBool (view_source (CONFIG s))
      then ''view-source:'' @ IScraperConfig.url (CONFIG s)
      else IScraperConfig.url (CONFIG s))"

definition scrape_try :: "world \<Rightarrow> Scraper \<Rightarrow> IScraperResult step" where
  "scrape_try w s =
     (let target = URL s
      in andThen (open_session w s) (\<lambda>u s.
         andThen (navigate w target empty_result s) (\<lambda>(res, result) s.
         andThen (postActions w result s) (\<lambda>result s.
         capture w res result s))))"

text \<open>The \<open>catch\<close> clause, lines 214 to 219: a new object with three properties.\<close>

definition scrape_catch :: "js_error \<Rightarrow> Scraper \<Rightarrow> IScraperResult step" where
  "scrape_catch e s =
     return
       \<lparr>url = Some (IScraperConfig.url (CONFIG s)), status_code = Some 500, body = None,
        error = Some (message e), cookies = None, headers = None, screenshot = None,
        eval_result = None\<rparr> s"

text \<open>
  The \<open>finally\<close> clause, lines 220 to 231: a \<open>try\<close> of its own, whose \<open>catch\<close> logs.
\<close>

definition finally_try :: "world \<Rightarrow> Scraper \<Rightarrow> unit step" where
  "finally_try w s =
     andThen
       (case page s of
          None \<Rightarrow> return () s
        | Some p \<Rightarrow>
            andThen (perform (Off crash_event) (Inr ()) s) (\<lambda>u s.
            andThen (perform (Off close_event) (Inr ()) s) (\<lambda>u s.
            perform (Off dialog_event) (Inr ()) s))) (\<lambda>u s.
     cleanup w s)"

definition scrape_finally :: "world \<Rightarrow> Scraper \<Rightarrow> unit step" where
  "scrape_finally w s =
     (case finally_try w s of
        (Inl e, s', xs) \<Rightarrow> (Inr (), s', xs @ [ConsoleError (message e)])
      | (Inr u, s', xs) \<Rightarrow> (Inr (), s', xs))"

text \<open>
  \<open>try\<close>, \<open>catch\<close>, \<open>finally\<close>: the \<open>finally\<close> clause runs after either of the
  other two, and the function completes as they did unless \<open>finally\<close> itself throws.
\<close>

definition scrape :: "world \<Rightarrow> Scraper \<Rightarrow> IScraperResult step" where
  "scrape w s =
     (case (case scrape_try w s of
              (Inl e, s1, xs) \<Rightarrow> (case scrape_catch e s1 of (r, s2, ys) \<Rightarrow> (r, s2, xs @ ys))
            | (Inr result, s1, xs) \<Rightarrow> (Inr result, s1, xs)) of
        (completion, s2, xs) \<Rightarrow>
          (case scrape_finally w s2 of
             (Inl e, s3, ys) \<Rightarrow> (Inl e, s3, xs @ ys)
           | (Inr u, s3, ys) \<Rightarrow> (completion, s3, xs @ ys)))"

text \<open>The public method, lines 240 to 250.\<close>

definition run :: "world \<Rightarrow> Scraper \<Rightarrow> IScraperResult step" where
  "run w s =
     (case scrape w s of
        (Inr res, s', xs) \<Rightarrow> (Inr res, s', xs)
      | (Inl e, s', xs) \<Rightarrow>
          (Inr (empty_result\<lparr>url := Some (IScraperConfig.url (CONFIG s')),
                             error := Some (message e),
                             status_code := Some 500\<rparr>), s', xs))"

section \<open>Classifying the actions of a session\<close>

text \<open>The actions of the \<open>finally\<close> clause and of \<open>cleanup\<close>, the console apart.\<close>

fun is_teardown :: "action \<Rightarrow> bool" where
  "is_teardown (Off ev) = True"
| "is_teardown (Unroute p) = True"
| "is_teardown PageClose = True"
| "is_teardown ContextClose = True"
| "is_teardown RemoveAllListeners = True"
| "is_teardown BrowserClose = True"
| "is_teardown a = False"

text \<open>The four optional operations between navigation and capture.\<close>

fun is_post_action :: "action \<Rightarrow> bool" where
  "is_post_action (WaitForTimeout d) = True"
| "is_post_action (WaitForSelector c) = True"
| "is_post_action (Evaluate js) = True"
| "is_post_action (Screenshot full t) = True"
| "is_post_action a = False"

text \<open>The awaited operation of a session that an action starts, if it starts one.\<close>

fun stage_of :: "action \<Rightarrow> stage option" where
  "stage_of (Goto target ev) = Some Navigating"
| "stage_of (WaitForTimeout d) = Some FixedWait"
| "stage_of (WaitForSelector c) = Some SelectorWait"
| "stage_of (Evaluate js) = Some ScriptEval"
| "stage_of (Screenshot full t) = Some ImageCapture"
| "stage_of Content = Some ContentCapture"
| "stage_of Cookies = Some CookieCapture"
| "stage_of a = None"

text \<open>
  Every awaited operation in a list of actions during which the page was closed from
  outside has the warning of the close listener in the list.
\<close>

definition closes_logged :: "world \<Rightarrow> action list \<Rightarrow> bool" where
  "closes_logged w tr =
     (\<forall>a \<in> set tr. \<forall>st. stage_of a = Some st \<and> close_event \<in> set (events w st) \<longrightarrow>
        ConsoleWarn (''Page closed on '' @ page_url w st) \<in> set tr)"

section \<open>Example sessions\<close>

text \<open>
  \<open>decodeURIComponent\<close> restricted to escapes of ASCII characters, for the example
  worlds: an escape of a byte above 127 is reported as malformed here, where the runtime
  would go on to decode a UTF-8 sequence.
\<close>

fun hex_digit :: "char \<Rightarrow> (bool \<times> bool \<times> bool \<times> bool) option" where
  "hex_digit c =
     map_of
       [(CHR ''0'', (False, False, False, False)), (CHR ''1'', (True, False, False, False)),
        (CHR ''2'', (False, True, False, False)), (CHR ''3'', (True, True, False, False)),
        (CHR ''4'', (False, False, True, False)), (CHR ''5'', (True, False, True, False)),
        (CHR ''6'', (False, True, True, False)), (CHR ''7'', (True, True, True, False)),
        (CHR ''8'', (False, False, False, True)), (CHR ''9'', (True, False, False, True)),
        (CHR ''a'', (False, True, False, True)), (CHR ''b'', (True, True, False, True)),
        (CHR ''c'', (False, False, True, True)), (CHR ''d'', (True, False, True, True)),
        (CHR ''e'', (False, True, True, True)), (CHR ''f'', (True, True, True, True)),
        (CHR ''A'', (False, True, False, True)), (CHR ''B'', (True, True, False, True)),
        (CHR ''C'', (False, False, True, True)), (CHR ''D'', (True, False, True, True)),
        (CHR ''E'', (False, True, True, True)), (CHR ''F'', (True, True, True, True))] c"

fun ascii_decodeURIComponent :: "string \<Rightarrow> string outcome" where
  "ascii_decodeURIComponent [] = Inr []"
| "ascii_decodeURIComponent [c] =
     (if c = CHR ''%'' then Inl (Error ''URI malformed'') else Inr [c])"
| "ascii_decodeURIComponent [c, d] =
     (if c = CHR ''%'' then Inl (Error ''URI malformed'')
      else map_sum id ((#) c) (ascii_decodeURIComponent [d]))"
| "ascii_decodeURIComponent (c # h # l # cs) =
     (if c = CHR ''%'' then
        (case (hex_digit h, hex_digit l) of
           (Some (h0, h1, h2, h3), Some (l0, l1, l2, l3)) \<Rightarrow>
             if h3 then Inl (Error ''URI malformed'')
             else map_sum id ((#) (Char l0 l1 l2 l3 h0 h1 h2 False)) (ascii_decodeURIComponent cs)
         | _ \<Rightarrow> Inl (Error ''URI malformed''))
      else map_sum id ((#) c) (ascii_decodeURIComponent (h # l # cs)))"

text \<open>The configuration of the README, and an environment with two of the four keys set.\<close>

definition example_config :: IScraperConfig where
  "example_config =
     \<lparr>IScraperConfig.url = ''https://example.com'', proxy_type = Datacenter, eval_js = None,
      browser_type = Some ''chromium'', IScraperConfig.headless = Some (Str ''true''),
      block_ads = Some (Str ''true''), IScraperConfig.stealth = Some (Str ''true''),
      timeout = Some 30000, block_resources = None, wait_until = Some networkidle,
      view_source = None, IScraperConfig.screenshot = None, wait_for_css = None,
      wait_for = None\<rparr>"

definition example_env :: "string \<rightharpoonup> string" where
  "example_env =
     [''PROXY_DATACENTER_SERVER'' \<mapsto> ''http://proxy.local:3128'',
      ''PROXY_DATACENTER_USERNAME'' \<mapsto> ''alice'']"

text \<open>A world in which every operation succeeds and the page emits no event.\<close>

definition example_world :: world where
  "example_world =
     \<lparr>env = example_env, decodeURIComponent = ascii_decodeURIComponent,
      connect_result = Inr Browser, newContext_result = Inr BrowserContext,
      newPage_result = Inr Page, route_result = Inr (),
      goto_result =
        Inr (Some \<lparr>Response.headers = [(''content-type'', ''text/html'')], status = 200\<rparr>),
      waitForTimeout_result = Inr (), waitForSelector_result = Inr (),
      evaluate_result = Inr (JSNumber 2), screenshot_result = Inr ''iVBORw0KGgo='',
      page_url = (\<lambda>st. ''https://example.com/''), content_result = Inr ''<html></html>'',
      cookies_result = Inr [Cookie ''sid'' ''42''], unroute_result = Inr (),
      page_close_result = Inr (), context_close_result = Inr (), isConnected_result = True,
      browser_close_result = Inr (), events = (\<lambda>st. []), dismiss_result = Inr ()\<rparr>"

section \<open>The post-actions as the specification orders them\<close>

text \<open>
  The specification's list: a fixed-delay wait, a wait for a selector, the evaluation of the
  percent-decoded script and a full-page image bounded by the effective timeout divided by
  two, each present when it is configured, in this order. An action is configured when the \<open>if\<close>
  of the source finds its field set: a delay other than 0, a selector other than the empty
  string, a script of any content, and for the screenshot a string other than the empty
  one or the boolean \<open>true\<close>. A script that cannot be decoded is not evaluated.
\<close>

definition postActions_in_order :: "world \<Rightarrow> IScraperConfig \<Rightarrow> action list" where
  "postActions_in_order w cfg =
     (case wait_for cfg of
        None \<Rightarrow> [] | Some d \<Rightarrow> if d = 0 then [] else [WaitForTimeout d]) @
     (case wait_for_css cfg of
        None \<Rightarrow> [] | Some c \<Rightarrow> if c = [] then [] else [WaitForSelector c]) @
     (case eval_js cfg of
        None \<Rightarrow> []
      | Some js \<Rightarrow>
          (case decodeURIComponent w js of Inl e \<Rightarrow> [] | Inr script \<Rightarrow> [Evaluate script])) @
     (case IScraperConfig.screenshot cfg of
        None \<Rightarrow> []
      | Some (Str v) \<Rightarrow>
          if v = [] then []
          else [Screenshot True (divide_by_2 (case timeout cfg of None \<Rightarrow> 60000 | Some t \<Rightarrow> t))]
      | Some (Bool b) \<Rightarrow>
          if b then [Screenshot True (divide_by_2 (case timeout cfg of None \<Rightarrow> 60000 | Some t \<Rightarrow> t))]
          else [])"

section \<open>Example sessions that fail or are disturbed\<close>

text \<open>
  Further example sessions: a configuration with every post-action; a script that throws;
  a screenshot that times out followed by four closing steps that all fail; a page closed from
  outside while the cookies are read, every operation still succeeding; a page closed
  from outside during navigation, which then fails; a navigation without a response.
\<close>

definition full_config :: IScraperConfig where
  "full_config =
     example_config\<lparr>eval_js := Some ''x%2B1'', wait_for := Some 250,
       wait_for_css := Some ''#main'', IScraperConfig.screenshot := Some (Str ''true''),
       block_resources := Some ''image,media''\<rparr>"

definition script_error_world :: world where
  "script_error_world =
     example_world\<lparr>evaluate_result := Inl (Error ''ReferenceError: x is not defined'')\<rparr>"

definition close_fails_world :: world where
  "close_fails_world =
     example_world\<lparr>screenshot_result := Inl (Error ''Timeout 15000ms exceeded''),
       unroute_result := Inl (Error ''unroute: Target closed''),
       page_close_result := Inl (Error ''page.close: Target closed''),
       context_close_result := Inl (Error ''context.close: Target closed''),
       browser_close_result := Inl (Error ''browser.close: Connection closed'')\<rparr>"

definition closed_late_world :: world where
  "closed_late_world =
     example_world\<lparr>events := (\<lambda>st. if st = CookieCapture then [close_event] else [])\<rparr>"

definition closed_early_world :: world where
  "closed_early_world =
     example_world\<lparr>events := (\<lambda>st. if st = Navigating then [close_event] else []),
       goto_result := Inl (Error ''Target page, context or browser has been closed'')\<rparr>"

definition no_response_world :: world where
  "no_response_world = example_world\<lparr>goto_result := Inr None\<rparr>"

text \<open>
  A page that crashes while the cookies are read; the smallest positive double as the
  timeout, with a screenshot; a page closed from outside while the script is evaluated.
\<close>

definition crash_late_world :: world where
  "crash_late_world =
     example_world\<lparr>events := (\<lambda>st. if st = CookieCapture then [crash_event] else [])\<rparr>"

definition tiny_timeout_config :: IScraperConfig where
  "tiny_timeout_config =
     example_config\<lparr>timeout := Some (1 / 2 ^ 1074),
       IScraperConfig.screenshot := Some (Str ''true'')\<rparr>"

definition closed_mid_world :: world where
  "closed_mid_world =
     example_world\<lparr>events := (\<lambda>st. if st = ScriptEval then [close_event] else [])\<rparr>"

section \<open>The launch parameters\<close>

lemma toUpperCase_values:
  "map (\<lambda>T. toUpperCase (ProxyType_value T))
     [ProxyNone, IPv6, Mobile, Residential, Datacenter, Custom] =
   [''NONE'', ''IPV6'', ''MOBILE'', ''RESIDENTIAL'', ''DATACENTER'', ''CUSTOM'']"
  by (simp add: toUpperCase_def toUpperCase_char_def)

lemma launchOptions_new [simp]:
  "launchOptions (new_Scraper w cfg) = setupLaunchOptions (env w) cfg launchOptions_defaults"
  by (simp add: new_Scraper_def)

text \<open>
  Claim C4, as the code has it. For every configuration the launch parameters carry no
  proxy object when the proxy type is \<open>none\<close>. For every other proxy type \<open>T\<close>, and a
  browser family other than webkit, they carry a proxy object whose server, bypass, username and password are the
  values of the environment keys \<open>PROXY_<T in upper case>_SERVER\<close>, \<open>_BYPASS\<close>,
  \<open>_USERNAME\<close> and \<open>_PASSWORD\<close>, each the empty string when its key is unset. The
  builder is a total function: an unset key is no error.
\<close>

theorem proxy_resolution:
  "(proxy_type cfg = ProxyNone \<longrightarrow> proxy (launchOptions (new_Scraper w cfg)) = None) \<and>
   (proxy_type cfg \<noteq> ProxyNone \<and> browser_type cfg \<noteq> Some ''webkit'' \<longrightarrow>
      proxy (launchOptions (new_Scraper w cfg)) =
        Some \<lparr>server =
                (case env w (''PROXY_'' @ toUpperCase (ProxyType_value (proxy_type cfg)) @ ''_SERVER'') of
                   None \<Rightarrow> [] | Some v \<Rightarrow> v),
              bypass =
                (case env w (''PROXY_'' @ toUpperCase (ProxyType_value (proxy_type cfg)) @ ''_BYPASS'') of
                   None \<Rightarrow> [] | Some v \<Rightarrow> v),
              username =
                (case env w (''PROXY_'' @ toUpperCase (ProxyType_value (proxy_type cfg)) @ ''_USERNAME'') of
                   None \<Rightarrow> [] | Some v \<Rightarrow> v),
              password =
                (case env w (''PROXY_'' @ toUpperCase (ProxyType_value (proxy_type cfg)) @ ''_PASSWORD'') of
                   None \<Rightarrow> [] | Some v \<Rightarrow> v)\<rparr>) \<and>
   map (\<lambda>T. toUpperCase (ProxyType_value T))
     [ProxyNone, IPv6, Mobile, Residential, Datacenter, Custom] =
   [''NONE'', ''IPV6'', ''MOBILE'', ''RESIDENTIAL'', ''DATACENTER'', ''CUSTOM'']"
  using toUpperCase_values
  by (simp add: setupLaunchOptions_def resolve_proxy_def env_or_empty_def Let_def
      split: ProxyType.splits)

text \<open>
  The README's configuration, with the server and the user name set in the environment
  and the other two keys unset; the same configuration without a proxy; and webkit
  without a proxy.
\<close>

theorem proxy_resolution_witness:
  "browser_type example_config \<noteq> Some ''webkit'' \<and> proxy_type example_config \<noteq> ProxyNone \<and>
   proxy (launchOptions (new_Scraper example_world example_config)) =
     Some \<lparr>server = ''http://proxy.local:3128'', bypass = [], username = ''alice'',
           password = []\<rparr> \<and>
   proxy (launchOptions (new_Scraper example_world (example_config\<lparr>proxy_type := ProxyNone\<rparr>))) =
     None \<and>
   proxy (launchOptions (new_Scraper example_world
     (example_config\<lparr>proxy_type := ProxyNone, browser_type := Some ''webkit''\<rparr>))) = None"
  using proxy_resolution [of example_config example_world]
    proxy_resolution [of "example_config\<lparr>proxy_type := ProxyNone\<rparr>" example_world]
    proxy_resolution [of "example_config\<lparr>proxy_type := ProxyNone, browser_type := Some ''webkit''\<rparr>"
      example_world]
  by (simp add: example_config_def example_world_def example_env_def toUpperCase_def
      toUpperCase_char_def)

text \<open>
  Claim C4 as stated fails for webkit: with the proxy type \<open>datacenter\<close> configured and
  its keys set, the launch parameters carry no proxy object.
\<close>

theorem proxy_webkit_counterexample:
  "proxy_type (example_config\<lparr>browser_type := Some ''webkit''\<rparr>) = Datacenter \<and>
   example_env ''PROXY_DATACENTER_SERVER'' = Some ''http://proxy.local:3128'' \<and>
   proxy (launchOptions
     (new_Scraper example_world (example_config\<lparr>browser_type := Some ''webkit''\<rparr>))) = None"
  by (simp add: example_config_def example_env_def setupLaunchOptions_def Let_def)

text \<open>
  Claim C5. For webkit the proxy object is absent whatever proxy type is configured, and
  neither stealth nor ad-block is set; for firefox the proxy is the resolved one and
  neither flag is set; for chromium the proxy is the resolved one and the two flags are
  \<open>parseBool\<close> of the configuration's \<open>stealth\<close> and \<open>block_ads\<close>.
\<close>

theorem family_gating:
  "(browser_type cfg = Some ''webkit'' \<longrightarrow>
      proxy (launchOptions (new_Scraper w cfg)) = None \<and>
      LaunchOptions.stealth (launchOptions (new_Scraper w cfg)) = None \<and>
      blockAds (launchOptions (new_Scraper w cfg)) = None) \<and>
   (browser_type cfg = Some ''firefox'' \<longrightarrow>
      proxy (launchOptions (new_Scraper w cfg)) = resolve_proxy (env w) cfg \<and>
      LaunchOptions.stealth (launchOptions (new_Scraper w cfg)) = None \<and>
      blockAds (launchOptions (new_Scraper w cfg)) = None) \<and>
   (browser_type cfg = Some ''chromium'' \<longrightarrow>
      proxy (launchOptions (new_Scraper w cfg)) = resolve_proxy (env w) cfg \<and>
      LaunchOptions.stealth (launchOptions (new_Scraper w cfg)) =
        Some (parseBool (IScraperConfig.stealth cfg)) \<and>
      blockAds (launchOptions (new_Scraper w cfg)) = Some (parseBool (block_ads cfg)))"
  by (simp add: setupLaunchOptions_def launchOptions_defaults_def Let_def)

theorem family_gating_witness:
  "proxy (launchOptions
     (new_Scraper example_world (example_config\<lparr>browser_type := Some ''webkit''\<rparr>))) = None \<and>
   LaunchOptions.stealth (launchOptions
     (new_Scraper example_world (example_config\<lparr>browser_type := Some ''webkit''\<rparr>))) = None \<and>
   blockAds (launchOptions
     (new_Scraper example_world (example_config\<lparr>browser_type := Some ''webkit''\<rparr>))) = None \<and>
   proxy (launchOptions
     (new_Scraper example_world (example_config\<lparr>browser_type := Some ''firefox''\<rparr>))) \<noteq> None \<and>
   LaunchOptions.stealth (launchOptions
     (new_Scraper example_world (example_config\<lparr>browser_type := Some ''firefox''\<rparr>))) = None \<and>
   blockAds (launchOptions
     (new_Scraper example_world (example_config\<lparr>browser_type := Some ''firefox''\<rparr>))) = None \<and>
   LaunchOptions.stealth (launchOptions
     (new_Scraper example_world (example_config\<lparr>block_ads := Some (Str ''no'')\<rparr>))) = Some True \<and>
   blockAds (launchOptions
     (new_Scraper example_world (example_config\<lparr>block_ads := Some (Str ''no'')\<rparr>))) = Some False"
  using family_gating [of "example_config\<lparr>browser_type := Some ''webkit''\<rparr>" example_world]
    family_gating [of "example_config\<lparr>browser_type := Some ''firefox''\<rparr>" example_world]
    family_gating [of "example_config\<lparr>block_ads := Some (Str ''no'')\<rparr>" example_world]
  by (simp add: example_config_def resolve_proxy_def)

text \<open>
  Claim C6 at the README's configuration with the browser family left out, and with a
  family that is none of the three: \<open>getBrowser\<close> selects chromium, yet
  \<open>setupLaunchOptions\<close> sets neither stealth nor ad-block, which it sets to \<open>true\<close>
  for the same configuration with the family \<open>chromium\<close> written out.
\<close>

theorem default_family_flags_dropped:
  "getBrowser (browser_type (example_config\<lparr>browser_type := None\<rparr>)) = chromium \<and>
   getBrowser (browser_type (example_config\<lparr>browser_type := Some ''opera''\<rparr>)) = chromium \<and>
   LaunchOptions.stealth (launchOptions
     (new_Scraper example_world (example_config\<lparr>browser_type := None\<rparr>))) = None \<and>
   blockAds (launchOptions
     (new_Scraper example_world (example_config\<lparr>browser_type := None\<rparr>))) = None \<and>
   LaunchOptions.stealth (launchOptions (new_Scraper example_world example_config)) = Some True \<and>
   blockAds (launchOptions (new_Scraper example_world example_config)) = Some True"
  by (simp add: example_config_def getBrowser_def setupLaunchOptions_def
      launchOptions_defaults_def Let_def)

text \<open>
  Claim C10. \<open>parseBool\<close> returns true exactly on an absent value and on the strings
  \<open>true\<close>, \<open>1\<close>, \<open>yes\<close>, \<open>on\<close> and \<open>enabled\<close>; the boolean \<open>true\<close> parses to false.
  So a configuration without \<open>headless\<close> launches headless and one with the boolean
  \<open>true\<close> does not, and for chromium an absent \<open>stealth\<close> or \<open>block_ads\<close> sets the
  flag to true.
\<close>

theorem parseBool_true_iff:
  "parseBool v =
     (v = None \<or> v = Some (Str ''true'') \<or> v = Some (Str ''1'') \<or> v = Some (Str ''yes'') \<or>
      v = Some (Str ''on'') \<or> v = Some (Str ''enabled'')) \<and>
   parseBool (Some (Bool True)) = False \<and>
   LaunchOptions.headless (launchOptions
     (new_Scraper w (cfg\<lparr>IScraperConfig.headless := None\<rparr>))) = True \<and>
   LaunchOptions.headless (launchOptions
     (new_Scraper w (cfg\<lparr>IScraperConfig.headless := Some (Bool True)\<rparr>))) = False \<and>
   LaunchOptions.stealth (launchOptions
     (new_Scraper w (cfg\<lparr>browser_type := Some ''chromium'', IScraperConfig.stealth := None\<rparr>))) =
     Some True \<and>
   blockAds (launchOptions
     (new_Scraper w (cfg\<lparr>browser_type := Some ''chromium'', block_ads := None\<rparr>))) = Some True"
proof -
  have "parseBool v =
     (v = None \<or> v = Some (Str ''true'') \<or> v = Some (Str ''1'') \<or> v = Some (Str ''yes'') \<or>
      v = Some (Str ''on'') \<or> v = Some (Str ''enabled''))"
    by (cases v rule: parseBool.cases) simp_all
  then show ?thesis
    by (simp add: setupLaunchOptions_def Let_def)
qed

section \<open>Steps of a session\<close>

lemma andThen_outcome [simp]:
  "outcome_of (andThen m f) =
     (case outcome_of m of Inl e \<Rightarrow> Inl e | Inr a \<Rightarrow> outcome_of (f a (state_of m)))"
  by (cases m; cases "outcome_of m") (auto simp: andThen_def split: prod.splits)

lemma andThen_state [simp]:
  "state_of (andThen m f) =
     (case outcome_of m of Inl e \<Rightarrow> state_of m | Inr a \<Rightarrow> state_of (f a (state_of m)))"
  by (cases m; cases "outcome_of m") (auto simp: andThen_def split: prod.splits)

lemma andThen_trace [simp]:
  "trace_of (andThen m f) =
     trace_of m @ (case outcome_of m of Inl e \<Rightarrow> [] | Inr a \<Rightarrow> trace_of (f a (state_of m)))"
  by (cases m; cases "outcome_of m") (auto simp: andThen_def split: prod.splits)

lemma perform_simps [simp]:
  "outcome_of (perform a r s) = r" "state_of (perform a r s) = s" "trace_of (perform a r s) = [a]"
  by (simp_all add: perform_def)

lemma await_page_simps [simp]:
  "outcome_of (await_page w st a r s) = r" "state_of (await_page w st a r s) = s"
  "trace_of (await_page w st a r s) = a # concat (map (dispatch w st s) (events w st))"
  by (simp_all add: await_page_def)

lemma return_simps [simp]:
  "outcome_of (return x s) = Inr x" "state_of (return x s) = s" "trace_of (return x s) = []"
  by (simp_all add: return_def)

lemma throw_simps [simp]:
  "outcome_of (throw e s) = Inl e" "state_of (throw e s) = s" "trace_of (throw e s) = []"
  by (simp_all add: throw_def)

lemma caught_simps [simp]:
  "outcome_of (caught a r s) = Inr ()" "state_of (caught a r s) = s"
  "trace_of (caught a r s) = a # (case r of Inl e \<Rightarrow> [ConsoleError (message e)] | Inr u \<Rightarrow> [])"
  by (simp_all add: caught_def)

subsection \<open>The instance after a step\<close>

lemma setupBrowser_state [simp]: "state_of (setupBrowser w s) = s"
  by (simp add: setupBrowser_def)

lemma setupContext_state [simp]: "state_of (setupContext w s) = s"
  by (simp add: setupContext_def split: option.splits)

lemma setupPage_state [simp]: "state_of (setupPage w s) = s"
  by (simp add: setupPage_def split: option.splits sum.splits)

lemma open_session_frame [simp]:
  "CONFIG (state_of (open_session w s)) = CONFIG s"
  "launchOptions (state_of (open_session w s)) = launchOptions s"
  "default_timeout (state_of (open_session w s)) = default_timeout s"
  by (simp_all add: open_session_def split: sum.splits)

lemma navigate_state [simp]: "state_of (navigate w target result s) = s"
  by (simp add: navigate_def split: sum.splits)

lemma fixed_wait_state [simp]: "state_of (fixed_wait w s) = s"
  by (simp add: fixed_wait_def)

lemma selector_wait_state [simp]: "state_of (selector_wait w s) = s"
  by (simp add: selector_wait_def)

lemma script_eval_state [simp]: "state_of (script_eval w result s) = s"
  by (simp add: script_eval_def split: option.splits sum.splits)

lemma image_capture_state [simp]: "state_of (image_capture w result s) = s"
  by (simp add: image_capture_def split: sum.splits)

lemma postActions_state [simp]: "state_of (postActions w result s) = s"
  by (simp add: postActions_def split: sum.splits)

lemma capture_state [simp]: "state_of (capture w res result s) = s"
  by (simp add: capture_def split: sum.splits)

lemma scrape_try_state [simp]: "state_of (scrape_try w s) = state_of (open_session w s)"
  by (simp add: scrape_try_def Let_def split: sum.splits prod.splits)

lemma cleanup_state [simp]: "state_of (cleanup w s) = s"
  by (simp add: cleanup_def split: option.splits sum.splits)

lemma cleanup_outcome [simp]: "outcome_of (cleanup w s) = Inr ()"
  by (simp add: cleanup_def split: option.splits sum.splits)

lemma finally_try_state [simp]: "state_of (finally_try w s) = s"
  by (simp add: finally_try_def split: option.splits sum.splits)

lemma finally_try_outcome [simp]: "outcome_of (finally_try w s) = Inr ()"
  by (simp add: finally_try_def split: option.splits sum.splits)

lemma scrape_finally_outcome [simp]: "outcome_of (scrape_finally w s) = Inr ()"
  by (simp add: scrape_finally_def split: prod.splits sum.splits)

lemma scrape_finally_state [simp]: "state_of (scrape_finally w s) = s"
  using finally_try_state [of w s]
  by (cases "finally_try w s") (simp add: scrape_finally_def split: sum.splits)

lemma scrape_finally_trace [simp]: "trace_of (scrape_finally w s) = trace_of (finally_try w s)"
  using finally_try_outcome [of w s]
  by (cases "finally_try w s") (simp add: scrape_finally_def split: sum.splits)

lemma scrape_outcome [simp]:
  "outcome_of (scrape w s) =
     (case outcome_of (scrape_try w s) of
        Inl e \<Rightarrow> outcome_of (scrape_catch e (state_of (scrape_try w s)))
      | Inr result \<Rightarrow> Inr result)"
proof -
  obtain r s1 xs where t: "scrape_try w s = (r, s1, xs)" by (cases "scrape_try w s")
  obtain u s3 ys where f: "scrape_finally w s1 = (u, s3, ys)" by (cases "scrape_finally w s1")
  from f have u: "u = Inr ()" using scrape_finally_outcome [of w s1] by simp
  show ?thesis
    by (cases r) (simp_all add: scrape_def scrape_catch_def return_def t f u)
qed

lemma scrape_state [simp]: "state_of (scrape w s) = state_of (scrape_try w s)"
proof -
  obtain r s1 xs where t: "scrape_try w s = (r, s1, xs)" by (cases "scrape_try w s")
  obtain u s3 ys where f: "scrape_finally w s1 = (u, s3, ys)" by (cases "scrape_finally w s1")
  from f have u: "u = Inr ()" "s3 = s1"
    using scrape_finally_outcome [of w s1] scrape_finally_state [of w s1] by simp_all
  show ?thesis
    by (cases r) (simp_all add: scrape_def scrape_catch_def return_def t f u)
qed

lemma scrape_trace [simp]:
  "trace_of (scrape w s) =
     trace_of (scrape_try w s) @ trace_of (finally_try w (state_of (scrape_try w s)))"
proof -
  obtain r s1 xs where t: "scrape_try w s = (r, s1, xs)" by (cases "scrape_try w s")
  obtain u s3 ys where f: "scrape_finally w s1 = (u, s3, ys)" by (cases "scrape_finally w s1")
  from f have u: "u = Inr ()" "ys = trace_of (finally_try w s1)"
    using scrape_finally_outcome [of w s1] scrape_finally_trace [of w s1] by simp_all
  show ?thesis
    by (cases r) (simp_all add: scrape_def scrape_catch_def return_def t f u)
qed

lemma run_outcome [simp]: "outcome_of (run w s) = outcome_of (scrape w s)"
  using scrape_outcome [of w s]
  by (cases "scrape w s") (auto simp: run_def scrape_catch_def split: sum.splits)

lemma run_state [simp]: "state_of (run w s) = state_of (scrape w s)"
  by (cases "scrape w s") (auto simp: run_def split: sum.splits)

lemma run_trace [simp]: "trace_of (run w s) = trace_of (scrape w s)"
  by (cases "scrape w s") (auto simp: run_def split: sum.splits)

subsection \<open>The envelope of a session that succeeds\<close>

lemma capture_success:
  assumes "outcome_of (capture w res result s) = Inr r"
  shows "\<exists>html jar. content_result w = Inr html \<and> cookies_result w = Inr jar \<and>
     r = result\<lparr>url := Some (page_url w UrlCapture), body := Some html,
          status_code := Some (case res of None \<Rightarrow> 0 | Some x \<Rightarrow> status x),
          cookies := Some jar\<rparr>"
  using assms by (auto simp: capture_def split: sum.splits)

lemma script_eval_success:
  assumes "outcome_of (script_eval w result s) = Inr r"
  shows "error r = error result \<and> headers r = headers result"
  using assms by (auto simp: script_eval_def split: sum.splits option.splits)

lemma image_capture_success:
  assumes "outcome_of (image_capture w result s) = Inr r"
  shows "error r = error result \<and> headers r = headers result"
  using assms by (auto simp: image_capture_def split: sum.splits if_splits)

lemma postActions_success:
  assumes "outcome_of (postActions w result s) = Inr r"
  shows "error r = error result \<and> headers r = headers result"
  using assms
  by (auto simp: postActions_def split: sum.splits dest!: script_eval_success image_capture_success)

lemma navigate_success:
  assumes "outcome_of (navigate w target result s) = Inr (res, r)"
  shows "goto_result w = Inr res \<and>
     r = result\<lparr>headers := Some (case res of None \<Rightarrow> [] | Some x \<Rightarrow> Response.headers x)\<rparr>"
  using assms by (auto simp: navigate_def split: sum.splits)

lemma scrape_try_success:
  assumes "outcome_of (scrape_try w s) = Inr r"
  shows "\<exists>res. goto_result w = Inr res \<and> url r = Some (page_url w UrlCapture) \<and>
     status_code r = Some (case res of None \<Rightarrow> 0 | Some x \<Rightarrow> status x) \<and>
     headers r = Some (case res of None \<Rightarrow> [] | Some x \<Rightarrow> Response.headers x) \<and>
     error r = None \<and> body r \<noteq> None \<and> cookies r \<noteq> None"
  using assms
  by (auto simp: scrape_try_def Let_def empty_result_def split: sum.splits prod.splits
      dest!: navigate_success postActions_success capture_success)

subsection \<open>Teardown actions\<close>

lemma dispatch_no_teardown [simp]: "filter is_teardown (dispatch w st s ev) = []"
  by (cases ev) (simp_all add: dispatch_def crash_def close_def dialog_def split: sum.splits)

lemma events_no_teardown [simp]:
  "filter is_teardown (concat (map (dispatch w st s) evs)) = []"
  by (induction evs) simp_all

lemma setupBrowser_no_teardown [simp]: "filter is_teardown (trace_of (setupBrowser w s)) = []"
  by (simp add: setupBrowser_def)

lemma setupContext_no_teardown [simp]: "filter is_teardown (trace_of (setupContext w s)) = []"
  by (simp add: setupContext_def split: option.splits)

lemma setupPage_no_teardown [simp]: "filter is_teardown (trace_of (setupPage w s)) = []"
  by (simp add: setupPage_def split: option.splits sum.splits)

lemma open_session_no_teardown [simp]: "filter is_teardown (trace_of (open_session w s)) = []"
  by (simp add: open_session_def split: sum.splits)

lemma navigate_no_teardown [simp]:
  "filter is_teardown (trace_of (navigate w target result s)) = []"
  by (simp add: navigate_def split: sum.splits)

lemma fixed_wait_no_teardown [simp]: "filter is_teardown (trace_of (fixed_wait w s)) = []"
  by (simp add: fixed_wait_def)

lemma selector_wait_no_teardown [simp]: "filter is_teardown (trace_of (selector_wait w s)) = []"
  by (simp add: selector_wait_def)

lemma script_eval_no_teardown [simp]:
  "filter is_teardown (trace_of (script_eval w result s)) = []"
  by (simp add: script_eval_def split: option.splits sum.splits)

lemma image_capture_no_teardown [simp]:
  "filter is_teardown (trace_of (image_capture w result s)) = []"
  by (simp add: image_capture_def split: sum.splits)

lemma postActions_no_teardown [simp]:
  "filter is_teardown (trace_of (postActions w result s)) = []"
  by (simp add: postActions_def split: sum.splits)

lemma capture_no_teardown [simp]:
  "filter is_teardown (trace_of (capture w res result s)) = []"
  by (simp add: capture_def split: sum.splits)

lemma scrape_try_no_teardown [simp]: "filter is_teardown (trace_of (scrape_try w s)) = []"
  by (simp add: scrape_try_def Let_def split: sum.splits prod.splits)

lemma cleanup_teardown:
  "filter is_teardown (trace_of (cleanup w s)) =
     (case page s of None \<Rightarrow> [] | Some p \<Rightarrow> [Unroute ''**/*'', PageClose]) @
     (case browserContext s of None \<Rightarrow> [] | Some c \<Rightarrow> [ContextClose]) @
     (case browser s of
        None \<Rightarrow> []
      | Some b \<Rightarrow> if isConnected_result w then [RemoveAllListeners, BrowserClose] else [])"
  by (simp add: cleanup_def split: option.splits sum.splits)

lemma finally_try_teardown:
  "filter is_teardown (trace_of (finally_try w s)) =
     (case page s of
        None \<Rightarrow> []
      | Some p \<Rightarrow>
          [Off crash_event, Off close_event, Off dialog_event, Unroute ''**/*'', PageClose]) @
     (case browserContext s of None \<Rightarrow> [] | Some c \<Rightarrow> [ContextClose]) @
     (case browser s of
        None \<Rightarrow> []
      | Some b \<Rightarrow> if isConnected_result w then [RemoveAllListeners, BrowserClose] else [])"
  by (simp add: finally_try_def cleanup_teardown split: option.splits sum.splits)

lemma finally_try_only_teardown:
  "a \<in> set (trace_of (finally_try w s)) \<Longrightarrow> is_teardown a \<or> (\<exists>m. a = ConsoleError m)"
  by (auto simp: finally_try_def cleanup_def split: option.splits sum.splits if_splits)

lemma finally_try_logs:
  "page s \<noteq> None \<Longrightarrow> unroute_result w = Inl e \<Longrightarrow>
     ConsoleError (message e) \<in> set (trace_of (finally_try w s))"
  "page s \<noteq> None \<Longrightarrow> page_close_result w = Inl e \<Longrightarrow>
     ConsoleError (message e) \<in> set (trace_of (finally_try w s))"
  "browserContext s \<noteq> None \<Longrightarrow> context_close_result w = Inl e \<Longrightarrow>
     ConsoleError (message e) \<in> set (trace_of (finally_try w s))"
  "browser s \<noteq> None \<Longrightarrow> isConnected_result w \<Longrightarrow> browser_close_result w = Inl e \<Longrightarrow>
     ConsoleError (message e) \<in> set (trace_of (finally_try w s))"
  by (auto simp: finally_try_def cleanup_def split: option.splits sum.splits if_splits)

subsection \<open>The handles a session acquires\<close>

lemma setupPage_outcome:
  "outcome_of (setupPage w s) =
     (case browserContext s of
        None \<Rightarrow> Inl (Error ''Context is not initialized'')
      | Some c \<Rightarrow>
         (case newPage_result w of
            Inl e \<Rightarrow> Inl e
          | Inr p \<Rightarrow>
              if truthy_string (block_resources (CONFIG s))
              then (case route_result w of Inl e \<Rightarrow> Inl e | Inr u \<Rightarrow> Inr p)
              else Inr p))"
  by (simp add: setupPage_def split: option.splits sum.splits)

lemma open_session_handles:
  "browser (state_of (open_session w (new_Scraper w cfg))) =
     (case connect_result w of Inl e \<Rightarrow> None | Inr b \<Rightarrow> Some b)"
  "browserContext (state_of (open_session w (new_Scraper w cfg))) =
     (case connect_result w of
        Inl e \<Rightarrow> None
      | Inr b \<Rightarrow> (case newContext_result w of Inl e \<Rightarrow> None | Inr c \<Rightarrow> Some c))"
  "page (state_of (open_session w (new_Scraper w cfg))) =
     (case connect_result w of
        Inl e \<Rightarrow> None
      | Inr b \<Rightarrow>
         (case newContext_result w of
            Inl e \<Rightarrow> None
          | Inr c \<Rightarrow>
             (case newPage_result w of
                Inl e \<Rightarrow> None
              | Inr p \<Rightarrow>
                  if truthy_string (block_resources cfg)
                  then (case route_result w of Inl e \<Rightarrow> None | Inr u \<Rightarrow> Some p)
                  else Some p)))"
  by (simp_all add: open_session_def setupBrowser_def setupContext_def setupPage_outcome
      new_Scraper_def split: sum.splits)

subsection \<open>Post-actions\<close>

lemma dispatch_no_post [simp]: "filter is_post_action (dispatch w st s ev) = []"
  by (cases ev) (simp_all add: dispatch_def crash_def close_def dialog_def split: sum.splits)

lemma events_no_post [simp]:
  "filter is_post_action (concat (map (dispatch w st s) evs)) = []"
  by (induction evs) simp_all

lemma setupBrowser_no_post [simp]: "filter is_post_action (trace_of (setupBrowser w s)) = []"
  by (simp add: setupBrowser_def)

lemma setupContext_no_post [simp]: "filter is_post_action (trace_of (setupContext w s)) = []"
  by (simp add: setupContext_def split: option.splits)

lemma setupPage_no_post [simp]: "filter is_post_action (trace_of (setupPage w s)) = []"
  by (simp add: setupPage_def split: option.splits sum.splits)

lemma open_session_no_post [simp]: "filter is_post_action (trace_of (open_session w s)) = []"
  by (simp add: open_session_def split: sum.splits)

lemma navigate_no_post [simp]:
  "filter is_post_action (trace_of (navigate w target result s)) = []"
  by (simp add: navigate_def split: sum.splits)

lemma capture_no_post [simp]:
  "filter is_post_action (trace_of (capture w res result s)) = []"
  by (simp add: capture_def split: sum.splits)

lemma cleanup_no_post [simp]: "filter is_post_action (trace_of (cleanup w s)) = []"
  by (simp add: cleanup_def split: option.splits sum.splits)

lemma finally_try_no_post [simp]: "filter is_post_action (trace_of (finally_try w s)) = []"
  by (simp add: finally_try_def split: option.splits sum.splits)

lemma fixed_wait_post:
  "filter is_post_action (trace_of (fixed_wait w s)) =
     (case wait_for (CONFIG s) of
        None \<Rightarrow> [] | Some d \<Rightarrow> if d = 0 then [] else [WaitForTimeout d])"
  by (simp add: fixed_wait_def split: option.splits)

lemma selector_wait_post:
  "filter is_post_action (trace_of (selector_wait w s)) =
     (case wait_for_css (CONFIG s) of
        None \<Rightarrow> [] | Some c \<Rightarrow> if c = [] then [] else [WaitForSelector c])"
  by (simp add: selector_wait_def split: option.splits)

lemma script_eval_post:
  "filter is_post_action (trace_of (script_eval w result s)) =
     (case eval_js (CONFIG s) of
        None \<Rightarrow> []
      | Some js \<Rightarrow>
          (case decodeURIComponent w js of Inl e \<Rightarrow> [] | Inr script \<Rightarrow> [Evaluate script]))"
  by (simp add: script_eval_def split: option.splits sum.splits)

lemma image_capture_post:
  "filter is_post_action (trace_of (image_capture w result s)) =
     (if truthy_StringBoolean (IScraperConfig.screenshot (CONFIG s))
      then [Screenshot True (divide_by_2 (Scraper_timeout s))] else [])"
  by (simp add: image_capture_def split: sum.splits)

lemma image_capture_post_cfg:
  "default_timeout s = 60000 \<Longrightarrow>
   filter is_post_action (trace_of (image_capture w result s)) =
     (case IScraperConfig.screenshot (CONFIG s) of
        None \<Rightarrow> []
      | Some (Str v) \<Rightarrow>
          if v = [] then []
          else [Screenshot True (divide_by_2 (case timeout (CONFIG s) of None \<Rightarrow> 60000 | Some t \<Rightarrow> t))]
      | Some (Bool b) \<Rightarrow>
          if b then [Screenshot True (divide_by_2 (case timeout (CONFIG s) of None \<Rightarrow> 60000 | Some t \<Rightarrow> t))]
          else [])"
  by (simp add: image_capture_post Scraper_timeout_def split: option.splits StringBoolean.splits)

lemma postActions_post_prefix:
  "default_timeout s = 60000 \<Longrightarrow>
   prefix (filter is_post_action (trace_of (postActions w result s)))
     (postActions_in_order w (CONFIG s))"
  by (simp add: postActions_def postActions_in_order_def fixed_wait_post selector_wait_post
      script_eval_post image_capture_post_cfg split: sum.splits)

lemma postActions_post_success:
  "default_timeout s = 60000 \<Longrightarrow> outcome_of (postActions w result s) = Inr r \<Longrightarrow>
     filter is_post_action (trace_of (postActions w result s)) =
       postActions_in_order w (CONFIG s)"
  by (simp add: postActions_def postActions_in_order_def fixed_wait_post selector_wait_post
      script_eval_post image_capture_post_cfg split: sum.splits)

lemma scrape_try_stages:
  assumes "outcome_of (scrape_try w s) = Inr r"
  shows "\<exists>res result result'.
     outcome_of (open_session w s) = Inr () \<and>
     outcome_of (navigate w (URL s) empty_result (state_of (open_session w s))) = Inr (res, result) \<and>
     outcome_of (postActions w result (state_of (open_session w s))) = Inr result' \<and>
     outcome_of (capture w res result' (state_of (open_session w s))) = Inr r"
  using assms by (auto simp: scrape_try_def Let_def split: sum.splits prod.splits)

lemma scrape_try_post_prefix:
  "default_timeout s = 60000 \<Longrightarrow>
   prefix (filter is_post_action (trace_of (scrape_try w s)))
     (postActions_in_order w (CONFIG s))"
  using postActions_post_prefix [of "state_of (open_session w s)" w]
  by (simp add: scrape_try_def Let_def split: sum.splits prod.splits)

lemma scrape_try_post_success:
  assumes "default_timeout s = 60000" and "outcome_of (scrape_try w s) = Inr r"
  shows "filter is_post_action (trace_of (scrape_try w s)) = postActions_in_order w (CONFIG s)"
proof -
  from scrape_try_stages [OF assms(2)] obtain res result result' where
    "outcome_of (open_session w s) = Inr ()"
    "outcome_of (navigate w (URL s) empty_result (state_of (open_session w s))) = Inr (res, result)"
    "outcome_of (postActions w result (state_of (open_session w s))) = Inr result'"
    by blast
  with postActions_post_success [of "state_of (open_session w s)" w result result'] assms(1)
  show ?thesis
    by (simp add: scrape_try_def Let_def)
qed

subsection \<open>Events of the page do not change how a step completes\<close>

lemma new_Scraper_events [simp]: "new_Scraper (w\<lparr>events := ev\<rparr>) cfg = new_Scraper w cfg"
  by (simp add: new_Scraper_def)

lemma setupBrowser_events [simp]:
  "outcome_of (setupBrowser (w\<lparr>events := ev\<rparr>) s) = outcome_of (setupBrowser w s)"
  by (simp add: setupBrowser_def)

lemma setupContext_events [simp]:
  "outcome_of (setupContext (w\<lparr>events := ev\<rparr>) s) = outcome_of (setupContext w s)"
  by (simp add: setupContext_def split: option.splits)

lemma setupPage_events [simp]:
  "outcome_of (setupPage (w\<lparr>events := ev\<rparr>) s) = outcome_of (setupPage w s)"
  by (simp add: setupPage_outcome split: option.splits sum.splits)

lemma open_session_events [simp]:
  "outcome_of (open_session (w\<lparr>events := ev\<rparr>) s) = outcome_of (open_session w s)"
  "state_of (open_session (w\<lparr>events := ev\<rparr>) s) = state_of (open_session w s)"
  by (simp_all add: open_session_def split: sum.splits)

lemma navigate_events [simp]:
  "outcome_of (navigate (w\<lparr>events := ev\<rparr>) target result s) = outcome_of (navigate w target result s)"
  by (simp add: navigate_def split: sum.splits)

lemma fixed_wait_events [simp]:
  "outcome_of (fixed_wait (w\<lparr>events := ev\<rparr>) s) = outcome_of (fixed_wait w s)"
  by (simp add: fixed_wait_def)

lemma selector_wait_events [simp]:
  "outcome_of (selector_wait (w\<lparr>events := ev\<rparr>) s) = outcome_of (selector_wait w s)"
  by (simp add: selector_wait_def)

lemma script_eval_events [simp]:
  "outcome_of (script_eval (w\<lparr>events := ev\<rparr>) result s) = outcome_of (script_eval w result s)"
  by (simp add: script_eval_def split: option.splits sum.splits)

lemma image_capture_events [simp]:
  "outcome_of (image_capture (w\<lparr>events := ev\<rparr>) result s) = outcome_of (image_capture w result s)"
  by (simp add: image_capture_def split: sum.splits)

lemma postActions_events [simp]:
  "outcome_of (postActions (w\<lparr>events := ev\<rparr>) result s) = outcome_of (postActions w result s)"
  by (simp add: postActions_def split: sum.splits)

lemma capture_events [simp]:
  "outcome_of (capture (w\<lparr>events := ev\<rparr>) res result s) = outcome_of (capture w res result s)"
  by (simp add: capture_def split: sum.splits)

lemma scrape_try_events [simp]:
  "outcome_of (scrape_try (w\<lparr>events := ev\<rparr>) s) = outcome_of (scrape_try w s)"
  by (simp add: scrape_try_def Let_def split: sum.splits prod.splits)

lemma run_events:
  "outcome_of (run (w\<lparr>events := ev\<rparr>) s) = outcome_of (run w s)"
  by (simp split: sum.splits)

subsection \<open>The close listener\<close>

lemma close_logged:
  assumes "close_event \<in> set evs" and "page s = Some p"
  shows "ConsoleWarn (''Page closed on '' @ page_url w st) \<in> set (concat (map (dispatch w st s) evs))"
  using assms by (auto simp: dispatch_def close_def intro!: bexI [of _ close_event])

lemma open_session_page:
  assumes "outcome_of (open_session w s) = Inr u"
  shows "\<exists>p. page (state_of (open_session w s)) = Some p"
  using assms by (auto simp: open_session_def split: sum.splits)

lemma navigate_close_logged:
  assumes "close_event \<in> set (events w Navigating)" and "page s = Some p"
  shows "ConsoleWarn (''Page closed on '' @ page_url w Navigating) \<in> set (trace_of (navigate w target result s))"
  using close_logged [OF assms, of w Navigating] by (simp add: navigate_def)

lemma capture_close_logged:
  assumes "close_event \<in> set (events w CookieCapture)" and "page s = Some p"
    and "outcome_of (capture w res result s) = Inr r"
  shows "ConsoleWarn (''Page closed on '' @ page_url w CookieCapture) \<in> set (trace_of (capture w res result s))"
  using close_logged [OF assms(1,2), of w CookieCapture] assms(3)
  by (auto simp: capture_def split: sum.splits)

lemma scrape_try_navigate_close_logged:
  assumes "outcome_of (open_session w s) = Inr u"
    and "close_event \<in> set (events w Navigating)"
  shows "ConsoleWarn (''Page closed on '' @ page_url w Navigating) \<in> set (trace_of (scrape_try w s))"
proof -
  from open_session_page [OF assms(1)] obtain p where "page (state_of (open_session w s)) = Some p" ..
  from navigate_close_logged [OF assms(2) this] assms(1) show ?thesis
    by (simp add: scrape_try_def Let_def)
qed

lemma scrape_try_capture_close_logged:
  assumes "outcome_of (scrape_try w s) = Inr r"
    and "close_event \<in> set (events w CookieCapture)"
  shows "ConsoleWarn (''Page closed on '' @ page_url w CookieCapture) \<in> set (trace_of (scrape_try w s))"
proof -
  from scrape_try_stages [OF assms(1)] obtain res result result' where st:
    "outcome_of (open_session w s) = Inr ()"
    "outcome_of (navigate w (URL s) empty_result (state_of (open_session w s))) = Inr (res, result)"
    "outcome_of (postActions w result (state_of (open_session w s))) = Inr result'"
    "outcome_of (capture w res result' (state_of (open_session w s))) = Inr r"
    by blast
  from open_session_page [OF st(1)] obtain p where "page (state_of (open_session w s)) = Some p" ..
  from capture_close_logged [OF assms(2) this st(4)] st show ?thesis
    by (simp add: scrape_try_def Let_def)
qed

subsection \<open>The response of the navigation\<close>

lemma new_Scraper_goto [simp]: "new_Scraper (w\<lparr>goto_result := x\<rparr>) cfg = new_Scraper w cfg"
  by (simp add: new_Scraper_def)

lemma dispatch_goto [simp]: "dispatch (w\<lparr>goto_result := x\<rparr>) st s = dispatch w st s"
proof
  fix ev show "dispatch (w\<lparr>goto_result := x\<rparr>) st s ev = dispatch w st s ev"
    by (cases ev)
      (simp_all add: dispatch_def crash_def close_def dialog_def split: option.splits sum.splits)
qed

lemma await_page_goto [simp]:
  "await_page (w\<lparr>goto_result := x\<rparr>) st a r s = await_page w st a r s"
  by (simp add: await_page_def)

lemma setupBrowser_goto [simp]: "setupBrowser (w\<lparr>goto_result := x\<rparr>) s = setupBrowser w s"
  by (simp add: setupBrowser_def)

lemma setupContext_goto [simp]: "setupContext (w\<lparr>goto_result := x\<rparr>) s = setupContext w s"
  by (simp add: setupContext_def cong: option.case_cong)

lemma setupPage_goto [simp]: "setupPage (w\<lparr>goto_result := x\<rparr>) s = setupPage w s"
  by (simp add: setupPage_def cong: option.case_cong if_cong)

lemma open_session_goto [simp]: "open_session (w\<lparr>goto_result := x\<rparr>) s = open_session w s"
  by (simp add: open_session_def)

lemma fixed_wait_goto [simp]: "fixed_wait (w\<lparr>goto_result := x\<rparr>) s = fixed_wait w s"
  by (simp add: fixed_wait_def)

lemma selector_wait_goto [simp]: "selector_wait (w\<lparr>goto_result := x\<rparr>) s = selector_wait w s"
  by (simp add: selector_wait_def)

lemma script_eval_goto [simp]:
  "script_eval (w\<lparr>goto_result := x\<rparr>) result s = script_eval w result s"
  by (simp add: script_eval_def cong: option.case_cong)

lemma image_capture_goto [simp]:
  "image_capture (w\<lparr>goto_result := x\<rparr>) result s = image_capture w result s"
  by (simp add: image_capture_def)

lemma postActions_goto [simp]:
  "postActions (w\<lparr>goto_result := x\<rparr>) result s = postActions w result s"
  by (simp add: postActions_def)

lemma capture_goto [simp]:
  "capture (w\<lparr>goto_result := x\<rparr>) res result s = capture w res result s"
  by (simp add: capture_def)

lemma script_eval_completion:
  "map_sum id (\<lambda>r. ()) (outcome_of (script_eval w result s)) =
   map_sum id (\<lambda>r. ()) (outcome_of (script_eval w result' s))"
  by (simp add: script_eval_def split: option.splits sum.splits)

lemma image_capture_completion:
  "map_sum id (\<lambda>r. ()) (outcome_of (image_capture w result s)) =
   map_sum id (\<lambda>r. ()) (outcome_of (image_capture w result' s))"
  by (simp add: image_capture_def split: sum.splits)

lemma postActions_completion:
  "map_sum id (\<lambda>r. ()) (outcome_of (postActions w result s)) =
   map_sum id (\<lambda>r. ()) (outcome_of (postActions w result' s))"
proof (cases "outcome_of (script_eval w result s)")
  case (Inl e)
  with script_eval_completion [of w result s result']
  have "outcome_of (script_eval w result' s) = Inl e"
    by (cases "outcome_of (script_eval w result' s)") simp_all
  with Inl show ?thesis
    by (simp add: postActions_def split: sum.splits)
next
  case (Inr r)
  with script_eval_completion [of w result s result']
  obtain r' where "outcome_of (script_eval w result' s) = Inr r'"
    by (cases "outcome_of (script_eval w result' s)") simp_all
  with Inr image_capture_completion [of w r s r'] show ?thesis
    by (simp add: postActions_def split: sum.splits)
qed

lemma capture_completion:
  "map_sum id (\<lambda>r. ()) (outcome_of (capture w res result s)) =
   map_sum id (\<lambda>r. ()) (outcome_of (capture w res' result' s))"
  by (simp add: capture_def split: sum.splits)

subsection \<open>Division of a double by two\<close>

lemma divide_by_2_exact:
  assumes "q * 2 ^ 1073 \<in> \<int>"
  shows "divide_by_2 q = q / 2"
proof -
  from assms obtain n :: int where n: "q * 2 ^ 1073 = of_int n" by (auto elim: Ints_cases)
  have "q * 2 ^ 1074 = of_int (2 * n)"
    using n by simp
  then have "\<lfloor>q * 2 ^ 1074\<rfloor> = 2 * n" by (simp only: floor_of_int)
  then show ?thesis by (simp add: divide_by_2_def Let_def)
qed

lemma divide_by_2_int: "divide_by_2 (of_int n) = of_int n / 2"
  by (rule divide_by_2_exact) simp

lemma divide_by_2_numeral [simp]: "divide_by_2 (numeral n) = numeral n / 2"
  using divide_by_2_int [of "numeral n"] by simp

lemma divide_by_2_smallest: "divide_by_2 (1 / 2 ^ 1074) = 0"
proof -
  have "\<lfloor>(1 / 2 ^ 1074 :: rat) * 2 ^ 1074\<rfloor> = 1" by simp
  then show ?thesis by (simp add: divide_by_2_def Let_def del: power_numeral)
qed

lemma divide_by_2_odd:
  assumes "q * 2 ^ 1074 = of_int m" and "odd m"
  shows "divide_by_2 q = of_int (if even ((m - 1) div 2) then (m - 1) div 2 else (m + 1) div 2) / 2 ^ 1074"
proof -
  from assms(1) have "\<lfloor>q * 2 ^ 1074\<rfloor> = m" by (simp only: floor_of_int)
  moreover from assms(2) have "(m - 1) div 2 + 1 = (m + 1) div 2" by presburger
  ultimately show ?thesis using assms(2) by (simp add: divide_by_2_def Let_def)
qed

subsection \<open>Close events are logged\<close>

lemma closes_logged_Nil [simp]: "closes_logged w []"
  by (simp add: closes_logged_def)

lemma closes_logged_append:
  "closes_logged w xs \<Longrightarrow> closes_logged w ys \<Longrightarrow> closes_logged w (xs @ ys)"
  by (auto simp: closes_logged_def)

lemma closes_logged_none:
  "(\<And>a. a \<in> set xs \<Longrightarrow> stage_of a = None) \<Longrightarrow> closes_logged w xs"
  by (auto simp: closes_logged_def)

lemma dispatch_stage_of: "b \<in> set (dispatch w st s ev) \<Longrightarrow> stage_of b = None"
  by (cases ev) (auto simp: dispatch_def crash_def close_def dialog_def split: sum.splits)

lemma closes_logged_single [simp]: "stage_of a = None \<Longrightarrow> closes_logged w [a]"
  by (simp add: closes_logged_def)

lemma closes_logged_caught [simp]:
  "stage_of a = None \<Longrightarrow>
   closes_logged w (a # (case r of Inl e \<Rightarrow> [ConsoleError (message e)] | Inr u \<Rightarrow> []))"
  by (auto simp: closes_logged_def split: sum.splits)

lemma closes_logged_await:
  assumes "page s = Some p" and "stage_of a = Some st"
  shows "closes_logged w (a # concat (map (dispatch w st s) (events w st)))"
proof -
  have "ConsoleWarn (''Page closed on '' @ page_url w st) \<in>
      set (concat (map (dispatch w st s) (events w st)))"
    if "close_event \<in> set (events w st)"
    using close_logged [OF that assms(1)] .
  moreover have "stage_of b = None" if "b \<in> set (concat (map (dispatch w st s) (events w st)))" for b
    using that dispatch_stage_of by auto
  ultimately show ?thesis
    using assms(2) by (auto simp: closes_logged_def)
qed

lemma closes_logged_bind:
  assumes "closes_logged w (trace_of m)"
    and "\<And>x. outcome_of m = Inr x \<Longrightarrow> closes_logged w (trace_of (f x (state_of m)))"
  shows "closes_logged w (trace_of (andThen m f))"
  using assms by (cases "outcome_of m") (auto intro: closes_logged_append)

lemma setupBrowser_closes [simp]: "closes_logged w (trace_of (setupBrowser w s))"
  by (simp add: setupBrowser_def)

lemma setupContext_closes [simp]: "closes_logged w (trace_of (setupContext w s))"
  by (simp add: setupContext_def split: option.splits)

lemma setupPage_closes [simp]: "closes_logged w (trace_of (setupPage w s))"
  by (auto simp: setupPage_def simp del: andThen_trace split: option.splits
      intro!: closes_logged_bind)

lemma open_session_closes [simp]: "closes_logged w (trace_of (open_session w s))"
  by (auto simp: open_session_def simp del: andThen_trace intro!: closes_logged_bind)

lemma navigate_closes:
  "page s = Some p \<Longrightarrow> closes_logged w (trace_of (navigate w target result s))"
  by (auto simp: navigate_def simp del: andThen_trace intro!: closes_logged_bind closes_logged_await)

lemma fixed_wait_closes:
  "page s = Some p \<Longrightarrow> closes_logged w (trace_of (fixed_wait w s))"
  by (auto simp: fixed_wait_def intro!: closes_logged_await)

lemma selector_wait_closes:
  "page s = Some p \<Longrightarrow> closes_logged w (trace_of (selector_wait w s))"
  by (auto simp: selector_wait_def intro!: closes_logged_await)

lemma script_eval_closes:
  "page s = Some p \<Longrightarrow> closes_logged w (trace_of (script_eval w result s))"
  by (auto simp: script_eval_def simp del: andThen_trace split: option.splits
      intro!: closes_logged_bind closes_logged_await)

lemma image_capture_closes:
  "page s = Some p \<Longrightarrow> closes_logged w (trace_of (image_capture w result s))"
  by (auto simp: image_capture_def simp del: andThen_trace
      intro!: closes_logged_bind closes_logged_await)

lemma postActions_closes:
  "page s = Some p \<Longrightarrow> closes_logged w (trace_of (postActions w result s))"
  by (auto simp: postActions_def simp del: andThen_trace
      intro!: closes_logged_bind fixed_wait_closes selector_wait_closes script_eval_closes
        image_capture_closes)

lemma capture_closes:
  "page s = Some p \<Longrightarrow> closes_logged w (trace_of (capture w res result s))"
  by (auto simp: capture_def simp del: andThen_trace
      intro!: closes_logged_bind closes_logged_await)

lemma scrape_try_closes: "closes_logged w (trace_of (scrape_try w s))"
proof -
  have "closes_logged w (trace_of (navigate w target result (state_of (open_session w s))))"
    "closes_logged w (trace_of (postActions w result (state_of (open_session w s))))"
    "closes_logged w (trace_of (capture w res result (state_of (open_session w s))))"
    if "outcome_of (open_session w s) = Inr u" for u target result res
    using open_session_page [OF that]
    by (auto intro: navigate_closes postActions_closes capture_closes)
  then show ?thesis
    by (auto simp: scrape_try_def Let_def simp del: andThen_trace split: prod.splits
        intro!: closes_logged_bind)
qed

lemma cleanup_closes [simp]: "closes_logged w (trace_of (cleanup w s))"
  by (auto simp: cleanup_def simp del: andThen_trace split: option.splits
      intro!: closes_logged_bind)

lemma finally_try_closes [simp]: "closes_logged w (trace_of (finally_try w s))"
  by (auto simp: finally_try_def simp del: andThen_trace split: option.splits
      intro!: closes_logged_bind)

lemma run_closes: "closes_logged w (trace_of (run w s))"
  by (simp add: closes_logged_append scrape_try_closes)

subsection \<open>Unfolding the example sessions\<close>

lemmas example_defs =
  example_world_def example_config_def example_env_def full_config_def

lemmas session_defs =
  new_Scraper_def scrape_try_def URL_def open_session_def setupBrowser_def setupContext_def
  setupPage_def navigate_def postActions_def fixed_wait_def selector_wait_def script_eval_def
  image_capture_def capture_def scrape_catch_def finally_try_def cleanup_def
  Scraper_timeout_def empty_result_def Let_def

lemma new_Scraper_fields [simp]:
  "CONFIG (new_Scraper w cfg) = cfg" "default_timeout (new_Scraper w cfg) = 60000"
  "browser (new_Scraper w cfg) = None" "browserContext (new_Scraper w cfg) = None"
  "page (new_Scraper w cfg) = None"
  by (simp_all add: new_Scraper_def)

lemma open_session_page_iff:
  "page (state_of (open_session w (new_Scraper w cfg))) \<noteq> None \<longleftrightarrow>
   outcome_of (open_session w (new_Scraper w cfg)) = Inr ()"
  by (auto simp: open_session_def new_Scraper_def split: sum.splits)

lemma run_error:
  assumes "outcome_of (run w s) = Inr r"
  shows "error r =
     (case outcome_of (scrape_try w s) of Inl e \<Rightarrow> Some (message e) | Inr x \<Rightarrow> None)"
proof (cases "outcome_of (scrape_try w s)")
  case (Inl e)
  with assms show ?thesis by (auto simp: scrape_catch_def)
next
  case (Inr x)
  with assms scrape_try_success [OF Inr] show ?thesis by auto
qed

lemma completion_bind:
  assumes "map_sum id (\<lambda>r. ()) m = map_sum id (\<lambda>r. ()) m'"
    and "\<And>x y. map_sum id (\<lambda>r. ()) (f x) = map_sum id (\<lambda>r. ()) (g y)"
  shows "map_sum id (\<lambda>r. ()) (case m of Inl e \<Rightarrow> Inl e | Inr x \<Rightarrow> f x) =
     map_sum id (\<lambda>r. ()) (case m' of Inl e \<Rightarrow> Inl e | Inr y \<Rightarrow> g y)"
  using assms by (cases m; cases m') auto

lemma scrape_try_null_completion:
  assumes "goto_result w = Inr None"
  shows "map_sum id (\<lambda>r. ()) (outcome_of (scrape_try (w\<lparr>goto_result := Inr (Some resp)\<rparr>) s)) =
     map_sum id (\<lambda>r. ()) (outcome_of (scrape_try w s))"
proof (cases "outcome_of (open_session w s)")
  case (Inl e)
  then show ?thesis by (simp add: scrape_try_def Let_def)
next
  case (Inr u)
  with assms show ?thesis
    by (simp add: scrape_try_def Let_def navigate_def cong: sum.case_cong)
      (rule completion_bind [OF postActions_completion capture_completion])
qed

subsection \<open>A rejected operation makes the step throw\<close>

lemma operation_throws:
  "connect_result w = Inl e \<Longrightarrow> outcome_of (open_session w s) = Inl e"
  "goto_result w = Inl e \<Longrightarrow> outcome_of (navigate w target result s) = Inl e"
  "truthy_number (wait_for (CONFIG s)) \<Longrightarrow> waitForTimeout_result w = Inl e \<Longrightarrow>
     outcome_of (fixed_wait w s) = Inl e"
  "truthy_string (wait_for_css (CONFIG s)) \<Longrightarrow> waitForSelector_result w = Inl e \<Longrightarrow>
     outcome_of (selector_wait w s) = Inl e"
  "eval_js (CONFIG s) = Some js \<Longrightarrow> decodeURIComponent w js = Inl e \<Longrightarrow>
     outcome_of (script_eval w result s) = Inl e"
  "eval_js (CONFIG s) = Some js \<Longrightarrow> decodeURIComponent w js = Inr script \<Longrightarrow>
     evaluate_result w = Inl e \<Longrightarrow> outcome_of (script_eval w result s) = Inl e"
  "truthy_StringBoolean (IScraperConfig.screenshot (CONFIG s)) \<Longrightarrow>
     screenshot_result w = Inl e \<Longrightarrow> outcome_of (image_capture w result s) = Inl e"
  "content_result w = Inl e \<Longrightarrow> outcome_of (capture w res result s) = Inl e"
  "content_result w = Inr html \<Longrightarrow> cookies_result w = Inl e \<Longrightarrow>
     outcome_of (capture w res result s) = Inl e"
  by (simp_all add: open_session_def setupBrowser_def navigate_def fixed_wait_def
      selector_wait_def script_eval_def image_capture_def capture_def)

lemma step_throws:
  "outcome_of (open_session w s) = Inl e \<Longrightarrow> outcome_of (scrape_try w s) = Inl e"
  "outcome_of (open_session w s) = Inr u \<Longrightarrow>
     outcome_of (navigate w (URL s) empty_result (state_of (open_session w s))) = Inl e \<Longrightarrow>
     outcome_of (scrape_try w s) = Inl e"
  "outcome_of (open_session w s) = Inr u \<Longrightarrow>
     outcome_of (navigate w (URL s) empty_result (state_of (open_session w s))) =
       Inr (res, result) \<Longrightarrow>
     outcome_of (postActions w result (state_of (open_session w s))) = Inl e \<Longrightarrow>
     outcome_of (scrape_try w s) = Inl e"
  "outcome_of (open_session w s) = Inr u \<Longrightarrow>
     outcome_of (navigate w (URL s) empty_result (state_of (open_session w s))) =
       Inr (res, result) \<Longrightarrow>
     outcome_of (postActions w result (state_of (open_session w s))) = Inr result' \<Longrightarrow>
     outcome_of (capture w res result' (state_of (open_session w s))) = Inl e \<Longrightarrow>
     outcome_of (scrape_try w s) = Inl e"
  by (simp_all add: scrape_try_def Let_def)

section \<open>The session orchestrator\<close>

text \<open>
  Claim C1. For every configuration and every behaviour of the service, \<open>run\<close> returns
  an envelope (it does not throw), and the envelope has \<open>url\<close> and \<open>status_code\<close> set.
\<close>

theorem run_returns_envelope:
  "\<exists>r. outcome_of (run w (new_Scraper w cfg)) = Inr r \<and> url r \<noteq> None \<and> status_code r \<noteq> None"
proof (cases "outcome_of (scrape_try w (new_Scraper w cfg))")
  case (Inl e)
  then show ?thesis by (simp add: scrape_catch_def)
next
  case (Inr r)
  with scrape_try_success [OF Inr] show ?thesis by auto
qed

text \<open>
  What the \<open>catch\<close> clause does: if the \<open>try\<close> block of the session throws, at whatever
  operation, the result of \<open>run\<close> is the envelope with the URL of the configuration, the
  message of the error and the status code 500, and with no body, headers, cookies,
  screenshot or evaluation result.
\<close>

theorem failure_envelope:
  assumes "outcome_of (scrape_try w (new_Scraper w cfg)) = Inl e"
  shows "outcome_of (run w (new_Scraper w cfg)) =
     Inr \<lparr>url = Some (IScraperConfig.url cfg), status_code = Some 500, body = None,
          error = Some (message e), cookies = None, headers = None, screenshot = None,
          eval_result = None\<rparr>"
  using assms by (simp add: scrape_catch_def new_Scraper_def)

text \<open>
  A script that throws after the headers have been taken from the response: nothing of
  the attempt is in the envelope.
\<close>

theorem failure_envelope_witness:
  "outcome_of (scrape_try script_error_world (new_Scraper script_error_world full_config)) =
     Inl (Error ''ReferenceError: x is not defined'') \<and>
   outcome_of (run script_error_world (new_Scraper script_error_world full_config)) =
     Inr \<lparr>url = Some ''https://example.com'', status_code = Some 500, body = None,
          error = Some ''ReferenceError: x is not defined'', cookies = None, headers = None,
          screenshot = None, eval_result = None\<rparr>"
proof -
  have h: "outcome_of (scrape_try script_error_world (new_Scraper script_error_world full_config)) =
     Inl (Error ''ReferenceError: x is not defined'')"
    by (simp add: script_error_world_def example_defs session_defs)
  from failure_envelope [OF h] h show ?thesis
    by (simp add: full_config_def example_config_def)
qed

text \<open>
  Claim C2 at a session whose page crashes while the cookies are read. The crash listener
  logs and throws \<open>Page crashed\<close>; the error surfaces in the emitter, the \<open>try\<close> block
  does not throw, and \<open>run\<close> returns a success envelope with the status code of the
  response instead of the failure envelope with 500.
\<close>

theorem crash_throw_not_caught:
  "events crash_late_world CookieCapture = [crash_event] \<and>
   outcome_of (crash crash_late_world CookieCapture
     (state_of (run crash_late_world (new_Scraper crash_late_world example_config)))) =
     Inl (Error ''Page crashed'') \<and>
   Uncaught (Error ''Page crashed'') \<in>
     set (trace_of (run crash_late_world (new_Scraper crash_late_world example_config))) \<and>
   ConsoleError ''Page crashed on https://example.com/'' \<in>
     set (trace_of (run crash_late_world (new_Scraper crash_late_world example_config))) \<and>
   outcome_of (run crash_late_world (new_Scraper crash_late_world example_config)) =
     Inr \<lparr>url = Some ''https://example.com/'', status_code = Some 200,
          body = Some ''<html></html>'', error = None, cookies = Some [Cookie ''sid'' ''42''],
          headers = Some [(''content-type'', ''text/html'')], screenshot = None,
          eval_result = None\<rparr>"
  by (simp add: crash_late_world_def example_defs session_defs dispatch_def crash_def)

text \<open>
  Claim C3. On every path of a session the teardown actions are, in this order: the three
  listeners unsubscribed, the interception rule removed and the page closed, if the page
  was acquired; the context closed, if it was acquired; the connection closed, if it was
  acquired and is still open. Which handles were acquired depends on how far the session
  got. The list does not depend on the outcome of any closing step, so a step that fails
  does not stop the following ones, and its error is written to the console. No teardown
  action happens before the body of the session is over.
\<close>

theorem teardown_order:
  "filter is_teardown (trace_of (run w (new_Scraper w cfg))) =
     (case page (state_of (run w (new_Scraper w cfg))) of
        None \<Rightarrow> []
      | Some p \<Rightarrow>
          [Off crash_event, Off close_event, Off dialog_event, Unroute ''**/*'', PageClose]) @
     (case browserContext (state_of (run w (new_Scraper w cfg))) of
        None \<Rightarrow> [] | Some c \<Rightarrow> [ContextClose]) @
     (case browser (state_of (run w (new_Scraper w cfg))) of
        None \<Rightarrow> []
      | Some b \<Rightarrow> if isConnected_result w then [RemoveAllListeners, BrowserClose] else []) \<and>
   (\<exists>body td. trace_of (run w (new_Scraper w cfg)) = body @ td \<and>
      filter is_teardown body = [] \<and>
      (\<forall>a \<in> set td. is_teardown a \<or> (\<exists>m. a = ConsoleError m))) \<and>
   browser (state_of (run w (new_Scraper w cfg))) =
     (case connect_result w of Inl e \<Rightarrow> None | Inr b \<Rightarrow> Some b) \<and>
   browserContext (state_of (run w (new_Scraper w cfg))) =
     (case connect_result w of
        Inl e \<Rightarrow> None
      | Inr b \<Rightarrow> (case newContext_result w of Inl e \<Rightarrow> None | Inr c \<Rightarrow> Some c)) \<and>
   page (state_of (run w (new_Scraper w cfg))) =
     (case connect_result w of
        Inl e \<Rightarrow> None
      | Inr b \<Rightarrow>
         (case newContext_result w of
            Inl e \<Rightarrow> None
          | Inr c \<Rightarrow>
             (case newPage_result w of
                Inl e \<Rightarrow> None
              | Inr p \<Rightarrow>
                  if truthy_string (block_resources cfg)
                  then (case route_result w of Inl e \<Rightarrow> None | Inr u \<Rightarrow> Some p)
                  else Some p))) \<and>
   (\<forall>e. page (state_of (run w (new_Scraper w cfg))) \<noteq> None \<and> unroute_result w = Inl e \<longrightarrow>
      ConsoleError (message e) \<in> set (trace_of (run w (new_Scraper w cfg)))) \<and>
   (\<forall>e. page (state_of (run w (new_Scraper w cfg))) \<noteq> None \<and> page_close_result w = Inl e \<longrightarrow>
      ConsoleError (message e) \<in> set (trace_of (run w (new_Scraper w cfg)))) \<and>
   (\<forall>e. browserContext (state_of (run w (new_Scraper w cfg))) \<noteq> None \<and>
        context_close_result w = Inl e \<longrightarrow>
      ConsoleError (message e) \<in> set (trace_of (run w (new_Scraper w cfg)))) \<and>
   (\<forall>e. browser (state_of (run w (new_Scraper w cfg))) \<noteq> None \<and> isConnected_result w \<and>
        browser_close_result w = Inl e \<longrightarrow>
      ConsoleError (message e) \<in> set (trace_of (run w (new_Scraper w cfg))))"
proof -
  let ?s0 = "new_Scraper w cfg"
  let ?S = "state_of (open_session w ?s0)"
  have order: "filter is_teardown (trace_of (run w ?s0)) =
     (case page ?S of
        None \<Rightarrow> []
      | Some p \<Rightarrow>
          [Off crash_event, Off close_event, Off dialog_event, Unroute ''**/*'', PageClose]) @
     (case browserContext ?S of None \<Rightarrow> [] | Some c \<Rightarrow> [ContextClose]) @
     (case browser ?S of
        None \<Rightarrow> []
      | Some b \<Rightarrow> if isConnected_result w then [RemoveAllListeners, BrowserClose] else [])"
    by (simp add: finally_try_teardown)
  have split: "\<exists>body td. trace_of (run w ?s0) = body @ td \<and>
      filter is_teardown body = [] \<and>
      (\<forall>a \<in> set td. is_teardown a \<or> (\<exists>m. a = ConsoleError m))"
  proof (intro exI conjI)
    show "trace_of (run w ?s0) = trace_of (scrape_try w ?s0) @ trace_of (finally_try w ?S)"
      by simp
    show "filter is_teardown (trace_of (scrape_try w ?s0)) = []" by simp
    show "\<forall>a \<in> set (trace_of (finally_try w ?S)). is_teardown a \<or> (\<exists>m. a = ConsoleError m)"
      using finally_try_only_teardown by blast
  qed
  have logs:
    "\<forall>e. page ?S \<noteq> None \<and> unroute_result w = Inl e \<longrightarrow>
      ConsoleError (message e) \<in> set (trace_of (run w ?s0))"
    "\<forall>e. page ?S \<noteq> None \<and> page_close_result w = Inl e \<longrightarrow>
      ConsoleError (message e) \<in> set (trace_of (run w ?s0))"
    "\<forall>e. browserContext ?S \<noteq> None \<and> context_close_result w = Inl e \<longrightarrow>
      ConsoleError (message e) \<in> set (trace_of (run w ?s0))"
    "\<forall>e. browser ?S \<noteq> None \<and> isConnected_result w \<and> browser_close_result w = Inl e \<longrightarrow>
      ConsoleError (message e) \<in> set (trace_of (run w ?s0))"
    using finally_try_logs [of ?S w] by simp_all
  have st: "state_of (run w ?s0) = ?S" by simp
  show ?thesis
    unfolding st
    using order split logs open_session_handles [of w cfg]
    by (intro conjI) assumption+
qed

theorem teardown_order_witness:
  "outcome_of (run close_fails_world (new_Scraper close_fails_world full_config)) =
     Inr \<lparr>url = Some ''https://example.com'', status_code = Some 500, body = None,
          error = Some ''Timeout 15000ms exceeded'', cookies = None, headers = None,
          screenshot = None, eval_result = None\<rparr> \<and>
   filter is_teardown (trace_of (run close_fails_world (new_Scraper close_fails_world full_config))) =
     [Off crash_event, Off close_event, Off dialog_event, Unroute ''**/*'', PageClose,
      ContextClose, RemoveAllListeners, BrowserClose] \<and>
   ConsoleError ''unroute: Target closed'' \<in>
     set (trace_of (run close_fails_world (new_Scraper close_fails_world full_config))) \<and>
   ConsoleError ''page.close: Target closed'' \<in>
     set (trace_of (run close_fails_world (new_Scraper close_fails_world full_config))) \<and>
   ConsoleError ''context.close: Target closed'' \<in>
     set (trace_of (run close_fails_world (new_Scraper close_fails_world full_config))) \<and>
   ConsoleError ''browser.close: Connection closed'' \<in>
     set (trace_of (run close_fails_world (new_Scraper close_fails_world full_config)))"
proof -
  have "outcome_of (run close_fails_world (new_Scraper close_fails_world full_config)) =
     Inr \<lparr>url = Some ''https://example.com'', status_code = Some 500, body = None,
          error = Some ''Timeout 15000ms exceeded'', cookies = None, headers = None,
          screenshot = None, eval_result = None\<rparr>"
    by (simp add: close_fails_world_def example_defs session_defs)
  with teardown_order [of close_fails_world full_config] show ?thesis
    by (simp add: close_fails_world_def example_world_def full_config_def example_config_def)
qed

text \<open>
  Claim C7, as the code has it. The close listener writes a warning with the address of
  the page and throws nothing. Removing the close events from a session changes nothing in
  the envelope: a session with a page closed from outside fails only if one of its
  operations throws. The warning is in the console for every awaited operation the
  session started during which the page was closed: navigation, the fixed wait, the wait
  for the selector, the evaluation, the screenshot, the reading of the content and the
  reading of the cookies.
\<close>

theorem close_listener_only_logs:
  "outcome_of (close w st s) = Inr () \<and>
   outcome_of
     (run (w\<lparr>events := \<lambda>st. filter (\<lambda>ev. ev \<noteq> close_event) (events w st)\<rparr>)
        (new_Scraper w cfg)) =
   outcome_of (run w (new_Scraper w cfg)) \<and>
   (page (state_of (run w (new_Scraper w cfg))) \<noteq> None \<and>
    close_event \<in> set (events w Navigating) \<longrightarrow>
      ConsoleWarn (''Page closed on '' @ page_url w Navigating) \<in>
        set (trace_of (run w (new_Scraper w cfg)))) \<and>
   (\<forall>r. outcome_of (run w (new_Scraper w cfg)) = Inr r \<and> error r = None \<and>
        close_event \<in> set (events w CookieCapture) \<longrightarrow>
      ConsoleWarn (''Page closed on '' @ page_url w CookieCapture) \<in>
        set (trace_of (run w (new_Scraper w cfg)))) \<and>
   (\<forall>a st. a \<in> set (trace_of (run w (new_Scraper w cfg))) \<and> stage_of a = Some st \<and>
        close_event \<in> set (events w st) \<longrightarrow>
      ConsoleWarn (''Page closed on '' @ page_url w st) \<in>
        set (trace_of (run w (new_Scraper w cfg))))"
proof (intro conjI allI impI)
  show "outcome_of (close w st s) = Inr ()" by (simp add: close_def)
next
  show "outcome_of
     (run (w\<lparr>events := \<lambda>st. filter (\<lambda>ev. ev \<noteq> close_event) (events w st)\<rparr>)
        (new_Scraper w cfg)) =
   outcome_of (run w (new_Scraper w cfg))"
    by (rule run_events)
next
  assume a: "page (state_of (run w (new_Scraper w cfg))) \<noteq> None \<and>
    close_event \<in> set (events w Navigating)"
  then have "outcome_of (open_session w (new_Scraper w cfg)) = Inr ()"
    using open_session_page_iff [of w cfg] by simp
  from scrape_try_navigate_close_logged [OF this] a
  show "ConsoleWarn (''Page closed on '' @ page_url w Navigating) \<in>
        set (trace_of (run w (new_Scraper w cfg)))"
    by simp
next
  fix r
  assume a: "outcome_of (run w (new_Scraper w cfg)) = Inr r \<and> error r = None \<and>
        close_event \<in> set (events w CookieCapture)"
  then have "outcome_of (scrape_try w (new_Scraper w cfg)) = Inr r"
    by (cases "outcome_of (scrape_try w (new_Scraper w cfg))") (auto simp: scrape_catch_def)
  from scrape_try_capture_close_logged [OF this] a
  show "ConsoleWarn (''Page closed on '' @ page_url w CookieCapture) \<in>
        set (trace_of (run w (new_Scraper w cfg)))"
    by simp
next
  fix a st
  assume "a \<in> set (trace_of (run w (new_Scraper w cfg))) \<and> stage_of a = Some st \<and>
        close_event \<in> set (events w st)"
  with run_closes [of w "new_Scraper w cfg"]
  show "ConsoleWarn (''Page closed on '' @ page_url w st) \<in>
        set (trace_of (run w (new_Scraper w cfg)))"
    unfolding closes_logged_def by blast
qed

theorem close_listener_only_logs_witness:
  "close_event \<in> set (events closed_early_world Navigating) \<and>
   page (state_of (run closed_early_world (new_Scraper closed_early_world example_config))) \<noteq> None \<and>
   ConsoleWarn ''Page closed on https://example.com/'' \<in>
     set (trace_of (run closed_early_world (new_Scraper closed_early_world example_config))) \<and>
   outcome_of (run closed_early_world (new_Scraper closed_early_world example_config)) =
     Inr \<lparr>url = Some ''https://example.com'', status_code = Some 500, body = None,
          error = Some ''Target page, context or browser has been closed'', cookies = None,
          headers = None, screenshot = None, eval_result = None\<rparr> \<and>
   close_event \<in> set (events closed_late_world CookieCapture) \<and>
   outcome_of (run closed_late_world (new_Scraper closed_late_world example_config)) =
     Inr \<lparr>url = Some ''https://example.com/'', status_code = Some 200,
          body = Some ''<html></html>'', error = None, cookies = Some [Cookie ''sid'' ''42''],
          headers = Some [(''content-type'', ''text/html'')], screenshot = None,
          eval_result = None\<rparr> \<and>
   ConsoleWarn ''Page closed on https://example.com/'' \<in>
     set (trace_of (run closed_late_world (new_Scraper closed_late_world example_config))) \<and>
   close_event \<in> set (events closed_mid_world ScriptEval) \<and>
   Evaluate ''x+1'' \<in>
     set (trace_of (run closed_mid_world (new_Scraper closed_mid_world full_config))) \<and>
   stage_of (Evaluate ''x+1'') = Some ScriptEval \<and>
   ConsoleWarn ''Page closed on https://example.com/'' \<in>
     set (trace_of (run closed_mid_world (new_Scraper closed_mid_world full_config)))"
proof -
  have early: "outcome_of (run closed_early_world (new_Scraper closed_early_world example_config)) =
     Inr \<lparr>url = Some ''https://example.com'', status_code = Some 500, body = None,
          error = Some ''Target page, context or browser has been closed'', cookies = None,
          headers = None, screenshot = None, eval_result = None\<rparr>"
    by (simp add: closed_early_world_def closed_late_world_def example_defs session_defs)
  have early_page:
    "page (state_of (run closed_early_world (new_Scraper closed_early_world example_config))) \<noteq> None"
    by (simp add: closed_early_world_def closed_late_world_def example_defs session_defs)
  have late: "outcome_of (run closed_late_world (new_Scraper closed_late_world example_config)) =
     Inr \<lparr>url = Some ''https://example.com/'', status_code = Some 200,
          body = Some ''<html></html>'', error = None, cookies = Some [Cookie ''sid'' ''42''],
          headers = Some [(''content-type'', ''text/html'')], screenshot = None,
          eval_result = None\<rparr>"
    by (simp add: closed_early_world_def closed_late_world_def example_defs session_defs)
  have mid: "Evaluate ''x+1'' \<in>
     set (trace_of (run closed_mid_world (new_Scraper closed_mid_world full_config)))"
    by (simp add: closed_mid_world_def example_defs session_defs)
  have mid_ev: "close_event \<in> set (events closed_mid_world ScriptEval)"
    by (simp add: closed_mid_world_def)
  have mid_url: "page_url closed_mid_world ScriptEval = ''https://example.com/''"
    by (simp add: closed_mid_world_def example_world_def)
  from close_listener_only_logs [of closed_mid_world ScriptEval
      "new_Scraper closed_mid_world full_config" full_config] mid mid_ev
  have "ConsoleWarn (''Page closed on '' @ page_url closed_mid_world ScriptEval) \<in>
     set (trace_of (run closed_mid_world (new_Scraper closed_mid_world full_config)))"
    by (metis stage_of.simps(4))
  with mid_url have mid_warn: "ConsoleWarn ''Page closed on https://example.com/'' \<in>
     set (trace_of (run closed_mid_world (new_Scraper closed_mid_world full_config)))"
    by simp
  from close_listener_only_logs [of closed_early_world Navigating "new_Scraper closed_early_world example_config" example_config]
    close_listener_only_logs [of closed_late_world Navigating "new_Scraper closed_late_world example_config" example_config]
    early early_page late
  have "close_event \<in> set (events closed_early_world Navigating) \<and>
   page (state_of (run closed_early_world (new_Scraper closed_early_world example_config))) \<noteq> None \<and>
   ConsoleWarn ''Page closed on https://example.com/'' \<in>
     set (trace_of (run closed_early_world (new_Scraper closed_early_world example_config))) \<and>
   outcome_of (run closed_early_world (new_Scraper closed_early_world example_config)) =
     Inr \<lparr>url = Some ''https://example.com'', status_code = Some 500, body = None,
          error = Some ''Target page, context or browser has been closed'', cookies = None,
          headers = None, screenshot = None, eval_result = None\<rparr> \<and>
   close_event \<in> set (events closed_late_world CookieCapture) \<and>
   outcome_of (run closed_late_world (new_Scraper closed_late_world example_config)) =
     Inr \<lparr>url = Some ''https://example.com/'', status_code = Some 200,
          body = Some ''<html></html>'', error = None, cookies = Some [Cookie ''sid'' ''42''],
          headers = Some [(''content-type'', ''text/html'')], screenshot = None,
          eval_result = None\<rparr> \<and>
   ConsoleWarn ''Page closed on https://example.com/'' \<in>
     set (trace_of (run closed_late_world (new_Scraper closed_late_world example_config)))"
    by (simp add: closed_early_world_def closed_late_world_def example_world_def)
  with mid mid_ev mid_warn show ?thesis by simp
qed

text \<open>
  Claim C7 as stated fails: the page is closed from outside while the close listener is
  subscribed, the warning is logged, and the session ends with a success envelope.
\<close>

theorem close_not_terminal_counterexample:
  "events closed_late_world CookieCapture = [close_event] \<and>
   On close_event \<in>
     set (trace_of (run closed_late_world (new_Scraper closed_late_world example_config))) \<and>
   ConsoleWarn ''Page closed on https://example.com/'' \<in>
     set (trace_of (run closed_late_world (new_Scraper closed_late_world example_config))) \<and>
   outcome_of (run closed_late_world (new_Scraper closed_late_world example_config)) =
     Inr \<lparr>url = Some ''https://example.com/'', status_code = Some 200,
          body = Some ''<html></html>'', error = None, cookies = Some [Cookie ''sid'' ''42''],
          headers = Some [(''content-type'', ''text/html'')], screenshot = None,
          eval_result = None\<rparr>"
  by (simp add: closed_late_world_def example_defs session_defs dispatch_def close_def)

text \<open>
  Claim C8. When navigation yields no response, the session fails exactly when it would
  have failed with a response, and with the same message; when it succeeds, the envelope
  has empty headers and the status code 0.
\<close>

theorem null_response_not_failure:
  assumes "goto_result w = Inr None"
  shows "\<exists>r r'. outcome_of (run w (new_Scraper w cfg)) = Inr r \<and>
     outcome_of (run (w\<lparr>goto_result := Inr (Some resp)\<rparr>) (new_Scraper w cfg)) = Inr r' \<and>
     error r = error r' \<and>
     (error r = None \<longrightarrow> headers r = Some [] \<and> status_code r = Some 0)"
proof -
  let ?w' = "w\<lparr>goto_result := Inr (Some resp)\<rparr>"
  let ?s = "new_Scraper w cfg"
  obtain r where r: "outcome_of (run w ?s) = Inr r"
    by (cases "outcome_of (scrape_try w ?s)") (auto simp: scrape_catch_def)
  obtain r' where r': "outcome_of (run ?w' ?s) = Inr r'"
    by (cases "outcome_of (scrape_try ?w' ?s)") (auto simp: scrape_catch_def)
  have "error r = error r'"
    using scrape_try_null_completion [OF assms, of resp ?s]
    unfolding run_error [OF r] run_error [OF r']
    by (cases "outcome_of (scrape_try w ?s)"; cases "outcome_of (scrape_try ?w' ?s)") auto
  moreover have "error r = None \<longrightarrow> headers r = Some [] \<and> status_code r = Some 0"
  proof
    assume "error r = None"
    with r have "outcome_of (scrape_try w ?s) = Inr r"
      by (cases "outcome_of (scrape_try w ?s)") (auto simp: scrape_catch_def)
    from scrape_try_success [OF this] assms show "headers r = Some [] \<and> status_code r = Some 0"
      by auto
  qed
  ultimately show ?thesis using r r'
    by - (rule exI [of _ r], rule exI [of _ r'], simp)
qed

theorem null_response_not_failure_witness:
  "goto_result no_response_world = Inr None \<and>
   outcome_of (run no_response_world (new_Scraper no_response_world example_config)) =
     Inr \<lparr>url = Some ''https://example.com/'', status_code = Some 0,
          body = Some ''<html></html>'', error = None, cookies = Some [Cookie ''sid'' ''42''],
          headers = Some [], screenshot = None, eval_result = None\<rparr>"
proof -
  have h: "goto_result no_response_world = Inr None"
    by (simp add: no_response_world_def)
  have "outcome_of (run no_response_world (new_Scraper no_response_world example_config)) =
     Inr \<lparr>url = Some ''https://example.com/'', status_code = Some 0,
          body = Some ''<html></html>'', error = None, cookies = Some [Cookie ''sid'' ''42''],
          headers = Some [], screenshot = None, eval_result = None\<rparr>"
    using null_response_not_failure [OF h, of example_config]
    by (simp add: no_response_world_def example_defs session_defs)
  with h show ?thesis by simp
qed

text \<open>
  Claim C9, as the code has it. The post-actions a session performs are an initial part of
  the specification's list, and the whole list when the session succeeds: the fixed wait,
  the wait for the selector, the evaluation of the decoded script, the full-page
  screenshot. The timeout of the screenshot is the effective timeout (the configured one,
  or 60000 when none is configured) divided by two as a double: exactly half of it when
  it is an even multiple of \<open>2^-1074\<close>, as every whole number of milliseconds is, and for
  an odd multiple \<open>m\<close> the multiple \<open>(m - 1) div 2\<close> or \<open>(m + 1) div 2\<close>, whichever is
  even.
\<close>

theorem postActions_order:
  "prefix (filter is_post_action (trace_of (run w (new_Scraper w cfg))))
     (postActions_in_order w cfg) \<and>
   (\<forall>r. outcome_of (run w (new_Scraper w cfg)) = Inr r \<and> error r = None \<longrightarrow>
      filter is_post_action (trace_of (run w (new_Scraper w cfg))) = postActions_in_order w cfg) \<and>
   (\<forall>t. t * 2 ^ 1073 \<in> \<int> \<longrightarrow> divide_by_2 t = t / 2) \<and>
   (\<forall>t m. t * 2 ^ 1074 = of_int m \<and> odd m \<longrightarrow>
      divide_by_2 t =
        of_int (if even ((m - 1) div 2) then (m - 1) div 2 else (m + 1) div 2) / 2 ^ 1074)"
proof (intro conjI allI impI)
  show "prefix (filter is_post_action (trace_of (run w (new_Scraper w cfg))))
     (postActions_in_order w cfg)"
    using scrape_try_post_prefix [of "new_Scraper w cfg" w] by simp
next
  fix r assume a: "outcome_of (run w (new_Scraper w cfg)) = Inr r \<and> error r = None"
  then have "outcome_of (scrape_try w (new_Scraper w cfg)) = Inr r"
    by (cases "outcome_of (scrape_try w (new_Scraper w cfg))") (auto simp: scrape_catch_def)
  from scrape_try_post_success [OF _ this]
  show "filter is_post_action (trace_of (run w (new_Scraper w cfg))) = postActions_in_order w cfg"
    by simp
next
  fix t :: rat assume "t * 2 ^ 1073 \<in> \<int>"
  then show "divide_by_2 t = t / 2" by (rule divide_by_2_exact)
next
  fix t :: rat and m :: int assume "t * 2 ^ 1074 = of_int m \<and> odd m"
  then show "divide_by_2 t =
        of_int (if even ((m - 1) div 2) then (m - 1) div 2 else (m + 1) div 2) / 2 ^ 1074"
    using divide_by_2_odd [of t m] by blast
qed

theorem postActions_order_witness:
  "outcome_of (run example_world (new_Scraper example_world full_config)) =
     Inr \<lparr>url = Some ''https://example.com/'', status_code = Some 200,
          body = Some ''<html></html>'', error = None, cookies = Some [Cookie ''sid'' ''42''],
          headers = Some [(''content-type'', ''text/html'')],
          screenshot = Some ''iVBORw0KGgo='', eval_result = Some (JSNumber 2)\<rparr> \<and>
   filter is_post_action (trace_of (run example_world (new_Scraper example_world full_config))) =
     [WaitForTimeout 250, WaitForSelector ''#main'', Evaluate ''x+1'', Screenshot True 15000] \<and>
   (30000 :: rat) * 2 ^ 1073 \<in> \<int> \<and> divide_by_2 30000 = 15000 \<and>
   (1 / 2 ^ 1074 :: rat) * 2 ^ 1074 = of_int 1 \<and> odd (1 :: int) \<and>
   divide_by_2 (1 / 2 ^ 1074) = 0"
proof -
  have h: "outcome_of (run example_world (new_Scraper example_world full_config)) =
     Inr \<lparr>url = Some ''https://example.com/'', status_code = Some 200,
          body = Some ''<html></html>'', error = None, cookies = Some [Cookie ''sid'' ''42''],
          headers = Some [(''content-type'', ''text/html'')],
          screenshot = Some ''iVBORw0KGgo='', eval_result = Some (JSNumber 2)\<rparr>"
    by (simp add: example_defs session_defs)
  have i: "(30000 :: rat) * 2 ^ 1073 \<in> \<int>" by simp
  have o: "(1 / 2 ^ 1074 :: rat) * 2 ^ 1074 = of_int 1 \<and> odd (1 :: int)" by simp
  note po = postActions_order [of example_world full_config]
  from po h have l: "filter is_post_action
      (trace_of (run example_world (new_Scraper example_world full_config))) =
     postActions_in_order example_world full_config"
    by simp
  from po i have e: "divide_by_2 30000 = (30000 :: rat) / 2" by blast
  from po o have z: "divide_by_2 (1 / 2 ^ 1074) =
      of_int (if even (((1::int) - 1) div 2) then (1 - 1) div 2 else (1 + 1) div 2) / 2 ^ 1074"
    by blast
  from z have z': "divide_by_2 (1 / 2 ^ 1074) = 0" by simp
  from l e have "filter is_post_action
      (trace_of (run example_world (new_Scraper example_world full_config))) =
     [WaitForTimeout 250, WaitForSelector ''#main'', Evaluate ''x+1'', Screenshot True 15000]"
    by (simp add: postActions_in_order_def example_defs)
  with h i o e z' show ?thesis by simp
qed

text \<open>
  Claim C9 as stated fails at the smallest positive double, \<open>5e-324\<close>: the session
  succeeds and asks for the screenshot with the timeout 0, which is not half of it.
\<close>

theorem screenshot_timeout_counterexample:
  "timeout tiny_timeout_config = Some (1 / 2 ^ 1074) \<and>
   filter is_post_action
     (trace_of (run example_world (new_Scraper example_world tiny_timeout_config))) =
     [Screenshot True 0] \<and>
   (0 :: rat) \<noteq> (1 / 2 ^ 1074) / 2"
proof -
  have "outcome_of (scrape_try example_world (new_Scraper example_world tiny_timeout_config)) =
     Inr \<lparr>url = Some ''https://example.com/'', status_code = Some 200,
          body = Some ''<html></html>'', error = None, cookies = Some [Cookie ''sid'' ''42''],
          headers = Some [(''content-type'', ''text/html'')],
          screenshot = Some ''iVBORw0KGgo='', eval_result = None\<rparr>"
    by (simp add: tiny_timeout_config_def example_defs session_defs del: power_numeral)
  from scrape_try_post_success [OF _ this]
  have "filter is_post_action
     (trace_of (run example_world (new_Scraper example_world tiny_timeout_config))) =
     postActions_in_order example_world tiny_timeout_config"
    by simp
  then show ?thesis
    by (simp add: postActions_in_order_def tiny_timeout_config_def example_config_def
        divide_by_2_smallest del: power_numeral)
qed

end
